theory Spec2Isabelle
  imports Main "HOL-Library.Word"
begin

section \<open>The request layer and access-token manager of the offiaccount client\<close>

text \<open>
  The Go package \<open>offiaccount\<close> talks to four collaborators that are not part of it: the
  HTTP transport (\<open>net/http\<close>), the JSON decoder (\<open>encoding/json\<close>), the credential cache
  (the interface behind \<open>ctx.AccessToken.Cache\<close>) and the optional logger. A run of one
  goroutine is embedded as a function on the trace: the list of calls made so far to the
  collaborators, each with what it returned (\<open>HTTPPost\<close> also needs a store of \<open>io.Reader\<close>
  objects). What a collaborator answers is given by an \<open>env\<close>, a record of functions of the
  calls made so far, so that every theorem below holds for every behaviour of the outside
  world.

  A Go result pair \<open>(value, err)\<close> is a pair whose second component is an
  \<open>error option\<close>, \<open>None\<close> for \<open>nil\<close>. A \<open>[]byte\<close> and a \<open>string\<close> are byte lists; the
  \<open>nil\<close> slice and the empty string are \<open>[]\<close>.
\<close>

subsection \<open>Data\<close>

type_synonym bytes = string

text \<open>
  Go compares errors by identity. \<open>NeedRefreshAccessTokenError\<close> is the package-level value
  made once by \<open>errors.New("access token invalid")\<close>; \<open>errors_New\<close> and \<open>fmt_Errorf\<close> are
  the values made at run time by \<open>errors.New\<close> and \<open>fmt.Errorf\<close>, which are never identical
  to it whatever their text; \<open>Foreign\<close> is an error made by a collaborator.
\<close>

datatype error =
    NeedRefreshAccessTokenError
  | errors_New string
  | fmt_Errorf string
  | Foreign string

fun Error :: "error \<Rightarrow> string" where
  "Error NeedRefreshAccessTokenError = ''access token invalid''"
| "Error (errors_New s) = s"
| "Error (fmt_Errorf s) = s"
| "Error (Foreign s) = s"

text \<open>
  An \<open>*http.Response\<close>: the fields the package reads, and what \<open>ioutil.ReadAll\<close> gives on
  its body (the bytes read and the error that stopped the read, if any).
\<close>

record Response =
  StatusCode :: int
  Status :: string
  Body :: "bytes \<times> error option"

text \<open>The two anonymous structs that the JSON of a response is decoded into.\<close>

record errorResponse =
  Errcode :: "64 word"
  Errmsg :: string

text \<open>
  The fields \<open>Errcode\<close> and \<open>Errmsg\<close> of the issuer's reply are decoded and never read;
  they are left out.
\<close>

record tokenResult =
  AccessToken :: string
  ExpiresIn :: "64 word"

record Config =
  Appid :: string
  Secret :: string

text \<open>
  \<open>OffiAccount\<close>: its declaration is not among the sources. The package reads
  \<open>ctx.Config.Appid\<close>, \<open>ctx.Config.Secret\<close>, \<open>ctx.Logger\<close> (compared with \<open>nil\<close>, here a
  flag), \<open>ctx.AccessToken.Cache\<close> (whose behaviour is part of \<open>env\<close>) and the two handler
  fields of \<open>ctx.AccessToken\<close>, which the client functions below take as parameters.
\<close>

record OffiAccount =
  Config :: Config
  Logger :: bool

datatype arg = ArgS string | ArgD "64 word"

datatype handler_field = GetAccessTokenHandler | GetRefreshAccessTokenHandler

text \<open>
  A call to a collaborator, with its arguments and its result.
  \<open>Http_Post url contentType payload sent r\<close> is a POST whose body is read from the reader at
  address \<open>payload\<close> (\<open>None\<close> for a \<open>nil\<close> reader); \<open>sent\<close> are the bytes the transport took
  from it. \<open>Handler_Call f r evs\<close> is a call of the function held in the field \<open>f\<close> of
  \<open>ctx.AccessToken\<close>, which returned \<open>r\<close> after making the calls \<open>evs\<close> itself.
\<close>

datatype event =
    Cache_Fetch string "string \<times> error option"
  | Cache_Save string string "64 word" "error option"
  | Mutex_Lock
  | Mutex_Unlock
  | Http_Get string "error + Response"
  | Http_Post string string "nat option" bytes "error + Response"
  | Body_Close Response
  | Logger_Printf string "arg list"
  | Handler_Call handler_field "string \<times> error option" "event list"

text \<open>
  The state of a run of \<open>HTTPPost\<close>: the trace, and for each \<open>io.Reader\<close> object the bytes
  not yet read from it.
\<close>

record world =
  trace :: "event list"
  readers :: "nat \<Rightarrow> bytes"

text \<open>
  The collaborators. \<open>http_Post\<close> is given the bytes still unread in the payload reader and
  answers how many of them it reads together with the outcome of the request.
\<close>

record env =
  http_Get :: "event list \<Rightarrow> string \<Rightarrow> error + Response"
  http_Post :: "event list \<Rightarrow> string \<Rightarrow> string \<Rightarrow> bytes \<Rightarrow> nat \<times> (error + Response)"
  json_errorResponse :: "bytes \<Rightarrow> error + errorResponse"
  json_tokenResult :: "bytes \<Rightarrow> error + tokenResult"
  url_QueryEscape :: "string \<Rightarrow> string"
  Fetch :: "event list \<Rightarrow> string \<Rightarrow> string \<times> error option"
  Save :: "event list \<Rightarrow> string \<Rightarrow> string \<Rightarrow> 64 word \<Rightarrow> error option"

subsection \<open>Package variables\<close>

definition WXServerUrl :: string where
  "WXServerUrl = ''https://api.weixin.qq.com''"

text \<open>The values of the map are Chinese texts, given here as their UTF-8 bytes.\<close>

definition WXInvalidErrorCode :: "64 word \<rightharpoonup> string" where
  "WXInvalidErrorCode =
     [40001 \<mapsto> ''access_token '' @ [CHR 0xE6, CHR 0x97, CHR 0xA0, CHR 0xE6, CHR 0x95, CHR 0x88],
      40014 \<mapsto> [CHR 0xE4, CHR 0xB8, CHR 0x8D, CHR 0xE5, CHR 0x90, CHR 0x88,
                CHR 0xE6, CHR 0xB3, CHR 0x95, CHR 0xE7, CHR 0x9A, CHR 0x84] @ ''access_token'']"

subsection \<open>responseFilter\<close>

definition responseFilter :: "env \<Rightarrow> Response \<Rightarrow> bytes \<times> error option" where
  "responseFilter E response =
     (if StatusCode response \<noteq> 200
      then ([], Some (fmt_Errorf (''Status '' @ Status response)))
      else case Body response of
        (resp, Some e) \<Rightarrow> (resp, Some e)
      | (resp, None) \<Rightarrow>
          (case json_errorResponse E resp of
             Inl e \<Rightarrow> (resp, Some e)
           | Inr errorResponse \<Rightarrow>
               if WXInvalidErrorCode (Errcode errorResponse) \<noteq> None
               then (resp, Some NeedRefreshAccessTokenError)
               else if Errcode errorResponse \<noteq> 0
               then (resp, Some (errors_New resp))
               else (resp, None)))"

subsection \<open>The arithmetic of \<open>int(0.9 * float64(expiresIn))\<close>\<close>

text \<open>
  A finite \<open>float64\<close> is written \<open>(m, k)\<close> for the number \<open>m / 2 ^ k\<close>, with \<open>m\<close> of at most
  53 significant bits. The numbers met here lie between \<open>2\<^sup>-\<^sup>5\<^sup>3\<close> and \<open>2\<^sup>6\<^sup>3\<close> in
  magnitude (or are zero), far from the exponent range's ends, so that an IEEE 754
  operation is the exact operation followed by rounding to 53 significant bits, to nearest,
  ties to even.

  Go's \<open>int\<close> is taken as 64 bits wide.
\<close>

type_synonym float64 = "int \<times> nat"

text \<open>How many bits a non-negative integer has beyond 53.\<close>

function f64_excess :: "int \<Rightarrow> nat" where
  "f64_excess a = (if a < 2 ^ 53 then 0 else Suc (f64_excess (a div 2)))"
  by pat_completeness auto
termination
  by (relation "measure nat") auto

declare f64_excess.simps [simp del]

text \<open>\<open>a / 2 ^ s\<close> rounded to the nearest integer, a tie going to the even one (\<open>a \<ge> 0\<close>).\<close>

definition round_half_even :: "int \<Rightarrow> nat \<Rightarrow> int" where
  "round_half_even a s =
     (let q = a div 2 ^ s; r = a mod 2 ^ s
      in if 2 * r < 2 ^ s then q
         else if 2 ^ s < 2 * r then q + 1
         else if even q then q else q + 1)"

definition f64_round :: "int \<Rightarrow> int" where
  "f64_round v = (let s = f64_excess \<bar>v\<bar> in sgn v * (round_half_even \<bar>v\<bar> s * 2 ^ s))"

text \<open>The conversion \<open>float64(n)\<close> of an \<open>int\<close>.\<close>

definition float64_of_int :: "64 word \<Rightarrow> float64" where
  "float64_of_int n = (f64_round (sint n), 0)"

text \<open>
  The constant \<open>0.9\<close> as a \<open>float64\<close>: the nearest one is \<open>0x3FECCCCCCCCCCCCD\<close>, that is
  \<open>8106479329266893 / 2\<^sup>5\<^sup>3\<close>.
\<close>

definition f64_0_9 :: float64 where
  "f64_0_9 = (8106479329266893, 53)"

definition f64_mul :: "float64 \<Rightarrow> float64 \<Rightarrow> float64" where
  "f64_mul x y = (case x of (a, j) \<Rightarrow> case y of (b, k) \<Rightarrow> (f64_round (a * b), j + k))"

text \<open>The conversion \<open>int(f)\<close> of a \<open>float64\<close>: the fraction is dropped (towards zero).\<close>

definition int_of_float64 :: "float64 \<Rightarrow> 64 word" where
  "int_of_float64 x = (case x of (m, k) \<Rightarrow> word_of_int (sgn m * (\<bar>m\<bar> div 2 ^ k)))"

definition time_Second :: "64 word" where
  "time_Second = 1000000000"

subsection \<open>refreshAccessTokenFromWXServer\<close>

text \<open>
  \<open>params.Encode()\<close> writes the keys in sorted order: \<open>appid\<close>, \<open>grant_type\<close>, \<open>secret\<close>.
  The result is \<open>((accessToken, expiresIn, err), trace)\<close>; the deferred
  \<open>response.Body.Close()\<close> runs on every return that follows a successful \<open>http.Get\<close>.
\<close>

definition token_url :: "env \<Rightarrow> string \<Rightarrow> string \<Rightarrow> string" where
  "token_url E appid secret =
     WXServerUrl @ ''/cgi-bin/token?'' @
       ''appid='' @ url_QueryEscape E appid @
       ''&grant_type='' @ url_QueryEscape E ''client_credential'' @
       ''&secret='' @ url_QueryEscape E secret"

definition refreshAccessTokenFromWXServer ::
  "env \<Rightarrow> string \<Rightarrow> string \<Rightarrow> event list \<Rightarrow> (string \<times> 64 word \<times> error option) \<times> event list" where
  "refreshAccessTokenFromWXServer E appid secret tr =
     (let url = token_url E appid secret;
          r = http_Get E tr url;
          tr1 = tr @ [Http_Get url r]
      in case r of
           Inl e \<Rightarrow> (([], 0, Some e), tr1)
         | Inr response \<Rightarrow>
             (let tr2 = tr1 @ [Body_Close response]
              in if StatusCode response \<noteq> 200
                 then (([], 0, Some (fmt_Errorf (''GET '' @ url @ '' RETURN '' @ Status response))), tr2)
                 else case Body response of
                   (resp, Some e) \<Rightarrow> (([], 0, Some e), tr2)
                 | (resp, None) \<Rightarrow>
                     (case json_tokenResult E resp of
                        Inl e \<Rightarrow> (([], 0, Some (fmt_Errorf (''Unmarshal error '' @ resp))), tr2)
                      | Inr result \<Rightarrow>
                          if AccessToken result = []
                          then (([], 0, Some (fmt_Errorf resp)), tr2)
                          else ((AccessToken result, ExpiresIn result, None), tr2))))"

subsection \<open>GetAccessToken and NoticeRefreshAccessToken\<close>

text \<open>
  The lines shared by the two functions (204 to 218 and 230 to 248), from the call of the
  issuer to the return: the lifetime is shrunk, the token saved (the result of \<open>Save\<close> is
  assigned to \<open>_\<close>), the logger called if there is one. The caller holds the lock.
\<close>

definition refresh_and_save ::
  "env \<Rightarrow> OffiAccount \<Rightarrow> event list \<Rightarrow> (string \<times> error option) \<times> event list" where
  "refresh_and_save E ctx tr =
     (case refreshAccessTokenFromWXServer E (Appid (Config ctx)) (Secret (Config ctx)) tr of
        ((accessToken, expiresIn, err), tr1) \<Rightarrow>
          (case err of
             Some e \<Rightarrow> ((accessToken, Some e), tr1)
           | None \<Rightarrow>
               (let expiresIn' = int_of_float64 (f64_mul f64_0_9 (float64_of_int expiresIn));
                    d = expiresIn' * time_Second;
                    tr2 = tr1 @ [Cache_Save (Appid (Config ctx)) accessToken d
                                   (Save E tr1 (Appid (Config ctx)) accessToken d)];
                    tr3 = (if Logger ctx
                           then tr2 @ [Logger_Printf ''%s %s %d\<newline>''
                                  [ArgS ''refreshAccessTokenFromWXServer'', ArgS accessToken,
                                   ArgD expiresIn']]
                           else tr2)
                in ((accessToken, None), tr3))))"

text \<open>\<open>defer refreshAccessTokenLock.Unlock()\<close>: the lock is released as the function returns.\<close>

definition unlock :: "'a \<times> event list \<Rightarrow> 'a \<times> event list" where
  "unlock rt = (case rt of (r, tr) \<Rightarrow> (r, tr @ [Mutex_Unlock]))"

definition cache_fetch ::
  "env \<Rightarrow> OffiAccount \<Rightarrow> event list \<Rightarrow> (string \<times> error option) \<times> event list" where
  "cache_fetch E ctx tr =
     (let r = Fetch E tr (Appid (Config ctx))
      in (r, tr @ [Cache_Fetch (Appid (Config ctx)) r]))"

definition GetAccessToken ::
  "env \<Rightarrow> OffiAccount \<Rightarrow> event list \<Rightarrow> (string \<times> error option) \<times> event list" where
  "GetAccessToken E ctx tr =
     (case cache_fetch E ctx tr of
        ((accessToken, err), tr1) \<Rightarrow>
          if accessToken \<noteq> [] then ((accessToken, err), tr1)
          else unlock
            (case cache_fetch E ctx (tr1 @ [Mutex_Lock]) of
               ((accessToken, err), tr2) \<Rightarrow>
                 if accessToken \<noteq> [] then ((accessToken, err), tr2)
                 else refresh_and_save E ctx tr2))"

definition NoticeRefreshAccessToken ::
  "env \<Rightarrow> OffiAccount \<Rightarrow> event list \<Rightarrow> (string \<times> error option) \<times> event list" where
  "NoticeRefreshAccessToken E ctx tr = unlock (refresh_and_save E ctx (tr @ [Mutex_Lock]))"

subsection \<open>The client: applyAccessToken, HTTPGet, HTTPPost\<close>

text \<open>
  A handler (the type of the fields \<open>GetAccessTokenHandler\<close> and
  \<open>GetRefreshAccessTokenHandler\<close>) is given the calls made so far and answers its result
  and the calls it makes itself. \<open>handler_of\<close> turns a function of this package into one.
\<close>

type_synonym handler = "OffiAccount \<Rightarrow> event list \<Rightarrow> (string \<times> error option) \<times> event list"

definition handler_of ::
  "(OffiAccount \<Rightarrow> event list \<Rightarrow> (string \<times> error option) \<times> event list) \<Rightarrow> handler" where
  "handler_of f ctx tr = (case f ctx tr of (r, tr') \<Rightarrow> (r, drop (length tr) tr'))"

definition call_handler ::
  "handler_field \<Rightarrow> handler \<Rightarrow> OffiAccount \<Rightarrow> event list \<Rightarrow> (string \<times> error option) \<times> event list" where
  "call_handler f h ctx tr = (case h ctx tr of (r, evs) \<Rightarrow> (r, tr @ [Handler_Call f r evs]))"

definition applyAccessToken ::
  "handler \<Rightarrow> OffiAccount \<Rightarrow> string \<Rightarrow> event list \<Rightarrow> (string \<times> error option) \<times> event list" where
  "applyAccessToken getH ctx oldUrl tr =
     (case call_handler GetAccessTokenHandler getH ctx tr of
        ((accessToken, err), tr1) \<Rightarrow>
          (case err of
             Some e \<Rightarrow> (([], Some e), tr1)
           | None \<Rightarrow>
               if CHR ''?'' \<in> set oldUrl
               then ((oldUrl @ ''&access_token='' @ accessToken, None), tr1)
               else ((oldUrl @ ''?access_token='' @ accessToken, None), tr1)))"

text \<open>
  The block of \<open>HTTPGet\<close> under \<open>if err == NeedRefreshAccessTokenError\<close> (lines 62 to 81).
  Its first statement, \<open>_, err := ...\<close>, declares a new \<open>err\<close> for the block, which the
  later statements of the block assign; the results \<open>resp\<close> and \<open>err\<close> of the function are
  out of their reach. A bare \<open>return\<close> in the block therefore returns the function's results
  as they were on entry (\<open>None\<close> below); only \<open>return responseFilter(response)\<close> sets them
  (\<open>Some\<close>). This is the meaning the language gives to a bare \<open>return\<close>; a compiler is
  allowed to refuse one where a result is shadowed, and then no caller gets the inner
  \<open>err\<close> either. The parameter \<open>uri\<close> holds the address that was requested first, token
  included, and is what \<open>applyAccessToken\<close> is given again.
\<close>

definition HTTPGet_retry ::
  "env \<Rightarrow> handler \<Rightarrow> handler \<Rightarrow> OffiAccount \<Rightarrow> string \<Rightarrow> event list
     \<Rightarrow> (bytes \<times> error option) option \<times> event list" where
  "HTTPGet_retry E getH refH ctx uri tr =
     (case call_handler GetRefreshAccessTokenHandler refH ctx tr of
        ((_, err), tr1) \<Rightarrow>
          (case err of
             Some e \<Rightarrow> (None, tr1)
           | None \<Rightarrow>
               (case applyAccessToken getH ctx uri tr1 of
                  ((uri', err), tr2) \<Rightarrow>
                    (case err of
                       Some e \<Rightarrow> (None, tr2)
                     | None \<Rightarrow>
                         (let tr3 = (if Logger ctx
                                     then tr2 @ [Logger_Printf ''Refresh Access Token Second GET %s''
                                                   [ArgS uri']]
                                     else tr2);
                              r = http_Get E tr3 (WXServerUrl @ uri');
                              tr4 = tr3 @ [Http_Get (WXServerUrl @ uri') r]
                          in case r of
                               Inl e \<Rightarrow> (None, tr4)
                             | Inr response \<Rightarrow>
                                 (Some (responseFilter E response),
                                  tr4 @ [Body_Close response]))))))"

definition HTTPGet ::
  "env \<Rightarrow> handler \<Rightarrow> handler \<Rightarrow> OffiAccount \<Rightarrow> string \<Rightarrow> event list
     \<Rightarrow> (bytes \<times> error option) \<times> event list" where
  "HTTPGet E getH refH ctx uri0 tr =
     (case applyAccessToken getH ctx uri0 tr of
        ((uri, err), tr1) \<Rightarrow>
          (case err of
             Some e \<Rightarrow> (([], Some e), tr1)
           | None \<Rightarrow>
               (let tr2 = (if Logger ctx then tr1 @ [Logger_Printf ''GET %s'' [ArgS uri]] else tr1);
                    r = http_Get E tr2 (WXServerUrl @ uri);
                    tr3 = tr2 @ [Http_Get (WXServerUrl @ uri) r]
                in case r of
                     Inl e \<Rightarrow> (([], Some e), tr3)
                   | Inr response \<Rightarrow>
                       (case responseFilter E response of
                          (resp, err) \<Rightarrow>
                            if err = Some NeedRefreshAccessTokenError
                            then (case HTTPGet_retry E getH refH ctx uri tr3 of
                                    (None, tr4) \<Rightarrow> ((resp, err), tr4 @ [Body_Close response])
                                  | (Some res, tr4) \<Rightarrow> (res, tr4 @ [Body_Close response]))
                            else ((resp, err), tr3 @ [Body_Close response])))))"

text \<open>
  \<open>http.Post(url, contentType, payload)\<close>: the transport reads the body of the request from
  the reader \<open>payload\<close>, whose unread bytes shrink by what was read. A \<open>nil\<close> reader gives a
  request without a body.
\<close>

definition post ::
  "env \<Rightarrow> string \<Rightarrow> string \<Rightarrow> nat option \<Rightarrow> world \<Rightarrow> (error + Response) \<times> world" where
  "post E url contentType payload w =
     (case payload of
        None \<Rightarrow>
          (case http_Post E (trace w) url contentType [] of
             (n, r) \<Rightarrow> (r, w\<lparr>trace := trace w @ [Http_Post url contentType None [] r]\<rparr>))
      | Some p \<Rightarrow>
          (case http_Post E (trace w) url contentType (readers w p) of
             (n, r) \<Rightarrow>
               (r, \<lparr>trace = trace w @ [Http_Post url contentType (Some p) (take n (readers w p)) r],
                    readers = (readers w)(p := drop n (readers w p))\<rparr>)))"

text \<open>The block of \<open>HTTPPost\<close> under \<open>if err == NeedRefreshAccessTokenError\<close> (lines 101 to 120).\<close>

definition HTTPPost_retry ::
  "env \<Rightarrow> handler \<Rightarrow> handler \<Rightarrow> OffiAccount \<Rightarrow> string \<Rightarrow> nat option \<Rightarrow> string \<Rightarrow> world
     \<Rightarrow> (bytes \<times> error option) option \<times> world" where
  "HTTPPost_retry E getH refH ctx uri payload contentType w =
     (case call_handler GetRefreshAccessTokenHandler refH ctx (trace w) of
        ((_, err), tr1) \<Rightarrow>
          (case err of
             Some e \<Rightarrow> (None, w\<lparr>trace := tr1\<rparr>)
           | None \<Rightarrow>
               (case applyAccessToken getH ctx uri tr1 of
                  ((uri', err), tr2) \<Rightarrow>
                    (case err of
                       Some e \<Rightarrow> (None, w\<lparr>trace := tr2\<rparr>)
                     | None \<Rightarrow>
                         (let tr3 = (if Logger ctx
                                     then tr2 @ [Logger_Printf ''Refresh Access Token Second POST %s''
                                                   [ArgS uri']]
                                     else tr2)
                          in case post E (WXServerUrl @ uri') contentType payload (w\<lparr>trace := tr3\<rparr>) of
                               (Inl e, w4) \<Rightarrow> (None, w4)
                             | (Inr response, w4) \<Rightarrow>
                                 (Some (responseFilter E response),
                                  w4\<lparr>trace := trace w4 @ [Body_Close response]\<rparr>))))))"

definition HTTPPost ::
  "env \<Rightarrow> handler \<Rightarrow> handler \<Rightarrow> OffiAccount \<Rightarrow> string \<Rightarrow> nat option \<Rightarrow> string \<Rightarrow> world
     \<Rightarrow> (bytes \<times> error option) \<times> world" where
  "HTTPPost E getH refH ctx uri0 payload contentType w =
     (case applyAccessToken getH ctx uri0 (trace w) of
        ((uri, err), tr1) \<Rightarrow>
          (case err of
             Some e \<Rightarrow> (([], Some e), w\<lparr>trace := tr1\<rparr>)
           | None \<Rightarrow>
               (let tr2 = (if Logger ctx then tr1 @ [Logger_Printf ''POST %s'' [ArgS uri]] else tr1)
                in case post E (WXServerUrl @ uri) contentType payload (w\<lparr>trace := tr2\<rparr>) of
                     (Inl e, w3) \<Rightarrow> (([], Some e), w3)
                   | (Inr response, w3) \<Rightarrow>
                       (case responseFilter E response of
                          (resp, err) \<Rightarrow>
                            if err = Some NeedRefreshAccessTokenError
                            then (case HTTPPost_retry E getH refH ctx uri payload contentType w3 of
                                    (None, w4) \<Rightarrow>
                                      ((resp, err), w4\<lparr>trace := trace w4 @ [Body_Close response]\<rparr>)
                                  | (Some res, w4) \<Rightarrow>
                                      (res, w4\<lparr>trace := trace w4 @ [Body_Close response]\<rparr>))
                            else ((resp, err), w3\<lparr>trace := trace w3 @ [Body_Close response]\<rparr>)))))"

subsection \<open>Reading a trace\<close>

text \<open>The calls that a run added to the trace it started from.\<close>

definition new_calls :: "event list \<Rightarrow> event list \<Rightarrow> event list" where
  "new_calls tr tr' = drop (length tr) tr'"

text \<open>
  The requests that \<open>HTTPGet\<close> and \<open>HTTPPost\<close> send themselves are the \<open>Http_Get\<close> and
  \<open>Http_Post\<close> entries of their trace; what a handler sends lies inside its \<open>Handler_Call\<close>.
\<close>

definition is_request :: "event \<Rightarrow> bool" where
  "is_request e = (case e of Http_Get u r \<Rightarrow> True | Http_Post u c p s r \<Rightarrow> True | _ \<Rightarrow> False)"

definition response_of :: "event \<Rightarrow> Response option" where
  "response_of e =
     (case e of
        Http_Get u r \<Rightarrow> (case r of Inl x \<Rightarrow> None | Inr y \<Rightarrow> Some y)
      | Http_Post u c p s r \<Rightarrow> (case r of Inl x \<Rightarrow> None | Inr y \<Rightarrow> Some y)
      | _ \<Rightarrow> None)"

definition is_forced_refresh :: "event \<Rightarrow> bool" where
  "is_forced_refresh e =
     (case e of Handler_Call f r evs \<Rightarrow> f = GetRefreshAccessTokenHandler | _ \<Rightarrow> False)"

definition handler_failed :: "event \<Rightarrow> bool" where
  "handler_failed e = (case e of Handler_Call f r evs \<Rightarrow> snd r \<noteq> None | _ \<Rightarrow> False)"

definition is_fetch :: "event \<Rightarrow> bool" where
  "is_fetch e = (case e of Cache_Fetch k r \<Rightarrow> True | _ \<Rightarrow> False)"

definition is_save :: "event \<Rightarrow> bool" where
  "is_save e = (case e of Cache_Save k v d r \<Rightarrow> True | _ \<Rightarrow> False)"

text \<open>All calls of a trace, those made inside handlers included, in the order they were made.\<close>

fun flat :: "event \<Rightarrow> event list" where
  "flat (Handler_Call f r evs) = concat (map flat evs)"
| "flat e = [e]"

definition calls :: "event list \<Rightarrow> event list" where
  "calls tr = concat (map flat tr)"

subsection \<open>A concrete outside world\<close>

text \<open>
  The scenario of the specification: the issuer hands out the token \<open>T1\<close> on the first
  request and answers the later ones with the body \<open>second\<close>; the platform rejects an address
  that ends in \<open>access_token=T1\<close> with errcode 40001 and accepts every other one. The JSON
  decoders are tables for the bodies that occur.
\<close>

definition body_T1 :: bytes where
  \<open>body_T1 = ''{"access_token":"T1","expires_in":7200}''\<close>

definition body_T2 :: bytes where
  \<open>body_T2 = ''{"access_token":"T2","expires_in":7200}''\<close>

definition body_T3 :: bytes where
  \<open>body_T3 = ''{"access_token":"T3","expires_in":-5}''\<close>

definition body_T4 :: bytes where
  \<open>body_T4 = ''{"access_token":"T4","expires_in":10248191153}''\<close>

definition body_ip :: bytes where
  \<open>body_ip = ''{"errcode":40164,"errmsg":"invalid ip"}''\<close>

definition body_invalid :: bytes where
  \<open>body_invalid = ''{"errcode":40001,"errmsg":"invalid"}''\<close>

definition body_ok :: bytes where
  \<open>body_ok = ''{"errcode":0,"data":"ok"}''\<close>

definition body_x :: bytes where
  \<open>body_x = ''{"errcode":99999,"errmsg":"x"}''\<close>

definition demo_errorResponse :: "bytes \<Rightarrow> error + errorResponse" where
  "demo_errorResponse b =
     (if b = body_invalid then Inr \<lparr>Errcode = 40001, Errmsg = ''invalid''\<rparr>
      else if b = body_ok then Inr \<lparr>Errcode = 0, Errmsg = []\<rparr>
      else if b = body_x then Inr \<lparr>Errcode = 99999, Errmsg = ''x''\<rparr>
      else Inl (Foreign ''invalid character''))"

definition demo_tokenResult :: "bytes \<Rightarrow> error + tokenResult" where
  "demo_tokenResult b =
     (if b = body_T1 then Inr \<lparr>AccessToken = ''T1'', ExpiresIn = 7200\<rparr>
      else if b = body_T2 then Inr \<lparr>AccessToken = ''T2'', ExpiresIn = 7200\<rparr>
      else if b = body_T3 then Inr \<lparr>AccessToken = ''T3'', ExpiresIn = - 5\<rparr>
      else if b = body_T4 then Inr \<lparr>AccessToken = ''T4'', ExpiresIn = 10248191153\<rparr>
      else if b = body_ip then Inr \<lparr>AccessToken = [], ExpiresIn = 0\<rparr>
      else Inl (Foreign ''invalid character''))"

definition ok200 :: "bytes \<Rightarrow> Response" where
  "ok200 b = \<lparr>StatusCode = 200, Status = ''200 OK'', Body = (b, None)\<rparr>"

definition is_token_request :: "event \<Rightarrow> bool" where
  "is_token_request e =
     (case e of
        Http_Get u r \<Rightarrow> take 39 u = ''https://api.weixin.qq.com/cgi-bin/token''
      | _ \<Rightarrow> False)"

definition ends_with :: "string \<Rightarrow> string \<Rightarrow> bool" where
  "ends_with s t = (drop (length s - length t) s = t)"

definition demo_answer :: "bytes \<Rightarrow> bytes \<Rightarrow> event list \<Rightarrow> string \<Rightarrow> Response" where
  "demo_answer first second tr url =
     (if take 39 url = ''https://api.weixin.qq.com/cgi-bin/token''
      then (if filter is_token_request (calls tr) = [] then ok200 first else ok200 second)
      else if ends_with url ''access_token=T1'' then ok200 body_invalid
      else ok200 body_ok)"

text \<open>
  Modelled from the spec: the credential cache, which is not among the sources. A \<open>fetch\<close>
  gives the value of the last \<open>save\<close> that succeeded for the key, and the empty value if
  there is none; the run has no clock, so that nothing expires during it.
\<close>

definition saved :: "event list \<Rightarrow> string \<Rightarrow> string" where
  "saved tr k =
     foldl (\<lambda>acc e. case e of
                      Cache_Save k' v d r \<Rightarrow> if k' = k \<and> r = None then v else acc
                    | _ \<Rightarrow> acc)
       [] (calls tr)"

definition demo_env :: "bytes \<Rightarrow> bytes \<Rightarrow> env" where
  "demo_env first second =
     \<lparr>http_Get = (\<lambda>tr url. Inr (demo_answer first second tr url)),
      http_Post = (\<lambda>tr url contentType b. (length b, Inr (demo_answer first second tr url))),
      json_errorResponse = demo_errorResponse,
      json_tokenResult = demo_tokenResult,
      url_QueryEscape = (\<lambda>s. s),
      Fetch = (\<lambda>tr k. (saved tr k, None)),
      Save = (\<lambda>tr k v d. None)\<rparr>"

text \<open>The same world with a cache that is out of order.\<close>

definition broken_cache_env :: env where
  "broken_cache_env =
     (demo_env body_T1 body_T2)
       \<lparr>Fetch := (\<lambda>tr k. ([], Some (Foreign ''cache unreachable''))),
        Save := (\<lambda>tr k v d. Some (Foreign ''cache unreachable''))\<rparr>"

definition demo_ctx :: OffiAccount where
  "demo_ctx = \<lparr>Config = \<lparr>Appid = ''wx1'', Secret = ''s3''\<rparr>, Logger = True\<rparr>"

text \<open>
  Modelled from the spec: the declaration that fills the handler fields of a new
  \<open>OffiAccount\<close> is not among the sources. By the spec the request layer obtains its token
  through \<open>GetToken\<close> and refreshes it through \<open>ForceRefresh\<close>, which are the functions
  \<open>GetAccessToken\<close> and \<open>NoticeRefreshAccessToken\<close> of this package.
\<close>

definition own_get :: "env \<Rightarrow> handler" where
  "own_get E = handler_of (GetAccessToken E)"

definition own_refresh :: "env \<Rightarrow> handler" where
  "own_refresh E = handler_of (NoticeRefreshAccessToken E)"

text \<open>The address of the issuer in this world, and some traces.\<close>

definition demo_token_url :: string where
  "demo_token_url =
     ''https://api.weixin.qq.com/cgi-bin/token?appid=wx1&grant_type=client_credential&secret=s3''"

definition trace_cached :: "event list" where
  "trace_cached = [Cache_Save ''wx1'' ''T0'' 6480000000000 None]"

definition calls_forced :: "event list" where
  "calls_forced =
     [Mutex_Lock,
      Http_Get demo_token_url (Inr (ok200 body_T1)),
      Body_Close (ok200 body_T1),
      Cache_Save ''wx1'' ''T1'' 6480000000000 None,
      Logger_Printf ''%s %s %d\<newline>''
        [ArgS ''refreshAccessTokenFromWXServer'', ArgS ''T1'', ArgD 6480],
      Mutex_Unlock]"


subsection \<open>Properties of a run, and the calls of the scenario\<close>

text \<open>What the block under the test for \<open>NeedRefreshAccessTokenError\<close> adds to the trace.\<close>

definition retry_shape :: "env \<Rightarrow> (bytes \<times> error option) option \<Rightarrow> event list \<Rightarrow> bool" where
  "retry_shape E out evs \<longleftrightarrow>
     length (filter is_forced_refresh evs) = 1
   \<and> length (filter is_request evs) \<le> 1
   \<and> (filter handler_failed evs = [] \<longrightarrow> length (filter is_request evs) = 1)
   \<and> (filter handler_failed evs \<noteq> [] \<longrightarrow> filter is_request evs = [])
   \<and> (\<forall>q2 r2. filter is_request evs = [q2] \<and> response_of q2 = Some r2
          \<longrightarrow> out = Some (responseFilter E r2))"

text \<open>
  The property of a run of \<open>HTTPGet\<close> or \<open>HTTPPost\<close> with result \<open>res\<close> and calls \<open>evs\<close>: if its
  first request got a response that \<open>responseFilter\<close> classifies as
  \<open>NeedRefreshAccessTokenError\<close>, then the refresh handler was called exactly once; at most one
  more request was sent, exactly one if no handler call of the run returned an error and
  none if one did; and when that second request got a response, the result of the run is
  what \<open>responseFilter\<close> makes of it.
\<close>

definition one_retry :: "env \<Rightarrow> bytes \<times> error option \<Rightarrow> event list \<Rightarrow> bool" where
  "one_retry E res evs \<longleftrightarrow>
     (\<forall>q1 rest r1.
        filter is_request evs = q1 # rest \<and> response_of q1 = Some r1
        \<and> snd (responseFilter E r1) = Some NeedRefreshAccessTokenError \<longrightarrow>
          length (filter is_forced_refresh evs) = 1
        \<and> length rest \<le> 1
        \<and> (filter handler_failed evs = [] \<longrightarrow> length rest = 1)
        \<and> (filter handler_failed evs \<noteq> [] \<longrightarrow> rest = [])
        \<and> (\<forall>q2 r2. rest = [q2] \<and> response_of q2 = Some r2 \<longrightarrow> res = responseFilter E r2))"

text \<open>
  \<open>misses E ctx tr tr0\<close>: in a run of \<open>GetAccessToken\<close> that starts at the trace \<open>tr\<close>, the
  look-up before the lock and the look-up under the lock both give the empty token, and \<open>tr0\<close>
  is the trace after the second; it is there that the issuer is asked.
\<close>

definition misses :: "env \<Rightarrow> OffiAccount \<Rightarrow> event list \<Rightarrow> event list \<Rightarrow> bool" where
  "misses E ctx tr tr0 =
     (let a = Appid (Config ctx);
          r1 = Fetch E tr a;
          tr1 = tr @ [Cache_Fetch a r1, Mutex_Lock];
          r2 = Fetch E tr1 a
      in fst r1 = [] \<and> fst r2 = [] \<and> tr0 = tr1 @ [Cache_Fetch a r2])"

text \<open>
  \<open>reads_from payload rd qs rd'\<close>: the requests \<open>qs\<close> are POSTs that took their bodies from the
  reader \<open>payload\<close> one after the other, each one a prefix of what the one before had left
  unread; \<open>rd\<close> is the store of readers before the first and \<open>rd'\<close> the store after the last.
\<close>

fun reads_from :: "nat option \<Rightarrow> (nat \<Rightarrow> bytes) \<Rightarrow> event list \<Rightarrow> (nat \<Rightarrow> bytes) \<Rightarrow> bool" where
  "reads_from payload rd [] rd' = (rd' = rd)"
| "reads_from payload rd (Http_Post u c p' s r # qs) rd' =
     (p' = payload \<and>
      (case payload of
         None \<Rightarrow> s = [] \<and> reads_from payload rd qs rd'
       | Some p \<Rightarrow> s = take (length s) (rd p)
                   \<and> reads_from payload (rd(p := drop (length s) (rd p))) qs rd'))"
| "reads_from payload rd (q # qs) rd' = False"

text \<open>
  The calls of the scenario: of \<open>GetAccessToken\<close> on an empty cache, of
  \<open>NoticeRefreshAccessToken\<close> when the issuer answers with \<open>T2\<close> and when it refuses, and of
  \<open>HTTPGet\<close> and \<open>HTTPPost\<close> for the path \<open>/cgi-bin/menu/get\<close> in both cases.
\<close>

definition calls_miss :: "event list" where
  "calls_miss =
     [Cache_Fetch ''wx1'' ([], None),
      Mutex_Lock,
      Cache_Fetch ''wx1'' ([], None),
      Http_Get demo_token_url (Inr (ok200 body_T1)),
      Body_Close (ok200 body_T1),
      Cache_Save ''wx1'' ''T1'' 6480000000000 None,
      Logger_Printf ''%s %s %d\<newline>''
        [ArgS ''refreshAccessTokenFromWXServer'', ArgS ''T1'', ArgD 6480],
      Mutex_Unlock]"

definition calls_second :: "event list" where
  "calls_second =
     [Mutex_Lock,
      Http_Get demo_token_url (Inr (ok200 body_T2)),
      Body_Close (ok200 body_T2),
      Cache_Save ''wx1'' ''T2'' 6480000000000 None,
      Logger_Printf ''%s %s %d\<newline>''
        [ArgS ''refreshAccessTokenFromWXServer'', ArgS ''T2'', ArgD 6480],
      Mutex_Unlock]"

definition calls_refused :: "event list" where
  "calls_refused =
     [Mutex_Lock,
      Http_Get demo_token_url (Inr (ok200 body_ip)),
      Body_Close (ok200 body_ip),
      Mutex_Unlock]"

definition url_first :: string where
  "url_first = ''https://api.weixin.qq.com/cgi-bin/menu/get?access_token=T1''"

definition url_second :: string where
  "url_second = ''https://api.weixin.qq.com/cgi-bin/menu/get?access_token=T1&access_token=T2''"

definition calls_get :: "event list" where
  "calls_get =
     [Handler_Call GetAccessTokenHandler (''T1'', None) calls_miss,
      Logger_Printf ''GET %s'' [ArgS ''/cgi-bin/menu/get?access_token=T1''],
      Http_Get url_first (Inr (ok200 body_invalid)),
      Handler_Call GetRefreshAccessTokenHandler (''T2'', None) calls_second,
      Handler_Call GetAccessTokenHandler (''T2'', None) [Cache_Fetch ''wx1'' (''T2'', None)],
      Logger_Printf ''Refresh Access Token Second GET %s''
        [ArgS ''/cgi-bin/menu/get?access_token=T1&access_token=T2''],
      Http_Get url_second (Inr (ok200 body_ok)),
      Body_Close (ok200 body_ok),
      Body_Close (ok200 body_invalid)]"

definition calls_get_refused :: "event list" where
  "calls_get_refused =
     [Handler_Call GetAccessTokenHandler (''T1'', None) calls_miss,
      Logger_Printf ''GET %s'' [ArgS ''/cgi-bin/menu/get?access_token=T1''],
      Http_Get url_first (Inr (ok200 body_invalid)),
      Handler_Call GetRefreshAccessTokenHandler ([], Some (fmt_Errorf body_ip)) calls_refused,
      Body_Close (ok200 body_invalid)]"

definition demo_world :: world where
  "demo_world = \<lparr>trace = [], readers = (\<lambda>p. if p = 0 then ''{}'' else [])\<rparr>"

definition calls_post :: "event list" where
  "calls_post =
     [Handler_Call GetAccessTokenHandler (''T1'', None) calls_miss,
      Logger_Printf ''POST %s'' [ArgS ''/cgi-bin/menu/get?access_token=T1''],
      Http_Post url_first ''application/json'' (Some 0) ''{}'' (Inr (ok200 body_invalid)),
      Handler_Call GetRefreshAccessTokenHandler (''T2'', None) calls_second,
      Handler_Call GetAccessTokenHandler (''T2'', None) [Cache_Fetch ''wx1'' (''T2'', None)],
      Logger_Printf ''Refresh Access Token Second POST %s''
        [ArgS ''/cgi-bin/menu/get?access_token=T1&access_token=T2''],
      Http_Post url_second ''application/json'' (Some 0) [] (Inr (ok200 body_ok)),
      Body_Close (ok200 body_ok),
      Body_Close (ok200 body_invalid)]"

definition calls_post_refused :: "event list" where
  "calls_post_refused =
     [Handler_Call GetAccessTokenHandler (''T1'', None) calls_miss,
      Logger_Printf ''POST %s'' [ArgS ''/cgi-bin/menu/get?access_token=T1''],
      Http_Post url_first ''application/json'' (Some 0) ''{}'' (Inr (ok200 body_invalid)),
      Handler_Call GetRefreshAccessTokenHandler ([], Some (fmt_Errorf body_ip)) calls_refused,
      Body_Close (ok200 body_invalid)]"

section \<open>Properties\<close>

subsection \<open>Auxiliary facts\<close>

lemma new_calls_append [simp]: "new_calls tr (tr @ evs) = evs"
  by (simp add: new_calls_def)

lemma new_calls_Nil [simp]: "new_calls [] tr = tr"
  by (simp add: new_calls_def)

lemma WXInvalidErrorCode_iff:
  "(\<exists>y. WXInvalidErrorCode c = Some y) \<longleftrightarrow> c = 40001 \<or> c = 40014"
  by (simp add: WXInvalidErrorCode_def)

lemmas tm_defs = GetAccessToken_def NoticeRefreshAccessToken_def refresh_and_save_def
  refreshAccessTokenFromWXServer_def cache_fetch_def unlock_def Let_def

lemmas ev_defs = is_save_def is_fetch_def is_request_def

lemmas body_defs = body_T1_def body_T2_def body_T3_def body_T4_def body_ip_def
  body_invalid_def body_ok_def body_x_def

subsection \<open>The response filter\<close>

text \<open>
  C4. \<open>responseFilter\<close> classifies a response as follows. If the status is not 200, the
  result is the error \<open>Status <status>\<close> and an empty body, whatever the body of the response
  and whatever the JSON decoder are (the body is neither read nor decoded). If the status
  is 200, the body \<open>resp\<close> was read, and it decodes with errcode \<open>c\<close>: for \<open>c = 0\<close> the result
  is \<open>resp\<close> without an error; for \<open>c\<close> one of 40001 and 40014 it is the error value
  \<open>NeedRefreshAccessTokenError\<close>; for any other \<open>c\<close> it is an error other than that one whose
  message is the text of \<open>resp\<close>.
\<close>

theorem responseFilter_classification:
  "(StatusCode r \<noteq> 200 \<longrightarrow>
      responseFilter E r = ([], Some (fmt_Errorf (''Status '' @ Status r)))
      \<and> responseFilter E' (r\<lparr>Body := b\<rparr>) = responseFilter E r)
   \<and> (StatusCode r = 200 \<and> Body r = (resp, None) \<and> json_errorResponse E resp = Inr j \<longrightarrow>
        (Errcode j = 0 \<longrightarrow> responseFilter E r = (resp, None))
      \<and> (Errcode j = 40001 \<or> Errcode j = 40014 \<longrightarrow>
           responseFilter E r = (resp, Some NeedRefreshAccessTokenError))
      \<and> (Errcode j \<noteq> 0 \<and> Errcode j \<noteq> 40001 \<and> Errcode j \<noteq> 40014 \<longrightarrow>
           (\<exists>e. responseFilter E r = (resp, Some e) \<and> Error e = resp
                \<and> e \<noteq> NeedRefreshAccessTokenError)))"
  by (auto simp: responseFilter_def WXInvalidErrorCode_iff)

theorem responseFilter_classification_witness:
  "responseFilter (demo_env body_T1 body_T2)
       \<lparr>StatusCode = 503, Status = ''503 Service Unavailable'', Body = (body_ok, None)\<rparr>
     = ([], Some (fmt_Errorf ''Status 503 Service Unavailable''))
   \<and> responseFilter (demo_env body_T1 body_T2) (ok200 body_ok) = (body_ok, None)
   \<and> responseFilter (demo_env body_T1 body_T2) (ok200 body_invalid)
       = (body_invalid, Some NeedRefreshAccessTokenError)
   \<and> (\<exists>e. responseFilter (demo_env body_T1 body_T2) (ok200 body_x) = (body_x, Some e)
          \<and> Error e = body_x \<and> e \<noteq> NeedRefreshAccessTokenError)"
  using
    responseFilter_classification
      [of "\<lparr>StatusCode = 503, Status = ''503 Service Unavailable'', Body = (body_ok, None)\<rparr>"
          "demo_env body_T1 body_T2" "demo_env body_T1 body_T2" "(body_ok, None)" body_ok
          "\<lparr>Errcode = 0, Errmsg = []\<rparr>"]
    responseFilter_classification
      [of "ok200 body_ok" "demo_env body_T1 body_T2" "demo_env body_T1 body_T2" "(body_ok, None)"
          body_ok "\<lparr>Errcode = 0, Errmsg = []\<rparr>"]
    responseFilter_classification
      [of "ok200 body_invalid" "demo_env body_T1 body_T2" "demo_env body_T1 body_T2"
          "(body_ok, None)" body_invalid "\<lparr>Errcode = 40001, Errmsg = ''invalid''\<rparr>"]
    responseFilter_classification
      [of "ok200 body_x" "demo_env body_T1 body_T2" "demo_env body_T1 body_T2"
          "(body_ok, None)" body_x "\<lparr>Errcode = 99999, Errmsg = ''x''\<rparr>"]
  by (simp add: ok200_def demo_env_def demo_errorResponse_def body_defs)

subsection \<open>The token manager\<close>

text \<open>
  C7. If the first \<open>Fetch\<close> of \<open>GetAccessToken\<close> gives a non-empty value, the function returns
  what the cache returned, and that fetch is the only call it makes: the lock is not
  acquired and nothing is requested from the issuer.
\<close>

theorem GetAccessToken_cache_hit:
  "Fetch E tr (Appid (Config ctx)) = (v, e) \<Longrightarrow> v \<noteq> [] \<Longrightarrow>
     GetAccessToken E ctx tr = ((v, e), tr @ [Cache_Fetch (Appid (Config ctx)) (v, e)])"
  by (simp add: GetAccessToken_def cache_fetch_def Let_def)

lemma saved_one: "saved [Cache_Save ''wx1'' ''T1'' 6480000000000 None] ''wx1'' = ''T1''"
  by (simp add: saved_def calls_def)

theorem GetAccessToken_cache_hit_witness:
  "Fetch (demo_env body_T1 body_T2) [Cache_Save ''wx1'' ''T1'' 6480000000000 None]
       (Appid (Config demo_ctx)) = (''T1'', None)
   \<and> ''T1'' \<noteq> []
   \<and> GetAccessToken (demo_env body_T1 body_T2) demo_ctx
        [Cache_Save ''wx1'' ''T1'' 6480000000000 None]
       = ((''T1'', None),
          [Cache_Save ''wx1'' ''T1'' 6480000000000 None, Cache_Fetch ''wx1'' (''T1'', None)])"
  using GetAccessToken_cache_hit
    [of "demo_env body_T1 body_T2" "[Cache_Save ''wx1'' ''T1'' 6480000000000 None]" demo_ctx
        "''T1''" None]
  by (simp add: demo_env_def demo_ctx_def saved_one)

subsection \<open>The shrunk lifetime\<close>

lemma f64_excess_le: "a < 2 ^ (53 + k) \<Longrightarrow> f64_excess a \<le> k"
proof (induction k arbitrary: a)
  case 0
  then show ?case by (simp add: f64_excess.simps)
next
  case (Suc k)
  show ?case
  proof (cases "a < 2 ^ 53")
    case True
    then show ?thesis by (simp add: f64_excess.simps)
  next
    case False
    from Suc.prems have "a < 2 ^ Suc (53 + k)" by simp
    then have "a < 2 * 2 ^ (53 + k)" by (simp only: power_Suc)
    then have "a div 2 < 2 ^ (53 + k)" by linarith
    then have "f64_excess (a div 2) \<le> k" by (rule Suc.IH)
    with False show ?thesis by (subst f64_excess.simps) simp
  qed
qed

lemma round_half_even_bounds:
  "a div 2 ^ s \<le> round_half_even a s \<and> round_half_even a s \<le> a div 2 ^ s + 1"
  by (simp add: round_half_even_def Let_def)

lemma f64_round_small: "0 \<le> a \<Longrightarrow> a < 2 ^ 53 \<Longrightarrow> f64_round a = a"
  by (cases "a = 0") (simp_all add: f64_round_def f64_excess.simps round_half_even_def sgn_if)

text \<open>
  Rounding a non-negative \<open>v\<close> of at most \<open>53 + k\<close> bits moves it by less than \<open>2 ^ k\<close>
  upwards, and not below a multiple of \<open>2 ^ j\<close> under it, for \<open>j \<ge> k\<close>.
\<close>

lemma f64_round_bounds:
  assumes "0 \<le> v" and "v < 2 ^ (53 + k)" and "k \<le> j" and "0 \<le> q" and "q * 2 ^ j \<le> v"
  shows "q * 2 ^ j \<le> f64_round v \<and> f64_round v \<le> v + 2 ^ k"
proof -
  define s where "s = f64_excess v"
  define R where "R = round_half_even v s * 2 ^ s"
  have sk: "s \<le> k" unfolding s_def using assms(2) by (rule f64_excess_le)
  have Rlow: "(v div 2 ^ s) * 2 ^ s \<le> R" and Rup: "R \<le> (v div 2 ^ s + 1) * 2 ^ s"
    unfolding R_def using round_half_even_bounds [of v s] by (simp_all add: mult_right_mono)
  have "v = (v div 2 ^ s) * 2 ^ s + v mod 2 ^ s" by (rule div_mult_mod_eq [symmetric])
  moreover have "0 \<le> v mod 2 ^ s" by simp
  ultimately have "(v div 2 ^ s) * 2 ^ s \<le> v" by linarith
  with Rup have up: "R \<le> v + 2 ^ s" by (simp add: algebra_simps)
  have "(2::int) ^ s \<le> 2 ^ k" using sk by simp
  with up have up': "R \<le> v + 2 ^ k" by linarith
  have "s \<le> j" using sk assms(3) by simp
  then have split: "(2::int) ^ j = 2 ^ (j - s) * 2 ^ s" by (simp flip: power_add)
  have "(q * 2 ^ (j - s) * 2 ^ s) div 2 ^ s \<le> v div 2 ^ s"
    using assms(5) split by (intro zdiv_mono1) (simp_all add: mult.assoc)
  then have "q * 2 ^ (j - s) \<le> v div 2 ^ s" by simp
  then have "q * 2 ^ (j - s) * 2 ^ s \<le> (v div 2 ^ s) * 2 ^ s" by (rule mult_right_mono) simp
  with Rlow have "q * 2 ^ (j - s) * 2 ^ s \<le> R" by (rule order_trans [rotated])
  then have "q * (2 ^ (j - s) * 2 ^ s) \<le> R" by (simp only: mult.assoc)
  then have low: "q * 2 ^ j \<le> R" by (simp only: split [symmetric])
  have eq: "f64_round v = sgn v * R" using assms(1) by (simp add: f64_round_def s_def R_def Let_def)
  have "f64_round v = R"
  proof (cases "v = 0")
    case True
    then have "R = 0" by (simp add: R_def round_half_even_def)
    with True eq show ?thesis by simp
  next
    case False
    with assms(1) have "sgn v = 1" by simp
    with eq show ?thesis by simp
  qed
  with low up' show ?thesis by simp
qed

lemma f64_round_minus: "f64_round (- v) = - f64_round v"
  by (simp add: f64_round_def Let_def)

lemma f64_round_small_abs: "\<bar>a\<bar> < 2 ^ 53 \<Longrightarrow> f64_round a = a"
proof (cases "0 \<le> a")
  case True
  assume "\<bar>a\<bar> < 2 ^ 53"
  with True show ?thesis by (simp add: f64_round_small)
next
  case False
  assume "\<bar>a\<bar> < 2 ^ 53"
  with False have "f64_round (- a) = - a" by (intro f64_round_small) simp_all
  then show ?thesis by (simp add: f64_round_minus)
qed

text \<open>
  For a lifetime \<open>n\<close> of magnitude at most 10248191152 seconds, \<open>int(0.9 * float64(n))\<close> is
  \<open>9 * n / 10\<close> with the fraction dropped: the \<open>float64\<close> for 0.9 is
  \<open>(9 * 2\<^sup>5\<^sup>3 + 2) / (10 * 2\<^sup>5\<^sup>3)\<close>, so that the exact product of 0.9 and \<open>\<bar>n\<bar>\<close> lies above
  \<open>9 * \<bar>n\<bar> / 10\<close> by \<open>\<bar>n\<bar> / (5 * 2\<^sup>5\<^sup>3)\<close>, and rounding adds less than \<open>2\<^sup>-\<^sup>1\<^sup>9\<close>; the sign is kept
  apart from the magnitude.
\<close>

lemma product_rounded:
  assumes "0 \<le> m" and "m \<le> 10248191152"
  shows "f64_round (8106479329266893 * m) div 9007199254740992 = 9 * m div 10"
    and "0 \<le> f64_round (8106479329266893 * m)"
proof -
  define v where "v = 8106479329266893 * m"
  define q where "q = 9 * m div 10"
  have q: "10 * q \<le> 9 * m" "9 * m < 10 * q + 10" "0 \<le> q"
    using assms(1) unfolding q_def by (simp_all add: pos_imp_zdiv_nonneg_iff)
  have v0: "0 \<le> v" using assms(1) by (simp add: v_def)
  have vlt: "v < 2 ^ (53 + 34)" using assms by (simp add: v_def)
  have qv: "q * 2 ^ 53 \<le> v" using q by (simp add: v_def)
  from f64_round_bounds [OF v0 vlt _ q(3) qv]
  have R: "q * 2 ^ 53 \<le> f64_round v" "f64_round v \<le> v + 2 ^ 34" by simp_all
  have "f64_round v < (q + 1) * 2 ^ 53"
    using R(2) q assms by (simp add: v_def)
  with R(1) have "f64_round v div 9007199254740992 = q"
    by (intro int_div_pos_eq [where r = "f64_round v - q * 9007199254740992"]) simp_all
  then show "f64_round (8106479329266893 * m) div 9007199254740992 = 9 * m div 10"
    by (simp add: v_def q_def)
  show "0 \<le> f64_round (8106479329266893 * m)"
    using R(1) q(3) by (simp add: v_def)
qed

lemma shrink_truncates:
  assumes "\<bar>sint w\<bar> \<le> 10248191152"
  shows "int_of_float64 (f64_mul f64_0_9 (float64_of_int w))
           = word_of_int (sgn (sint w) * (9 * \<bar>sint w\<bar> div 10))"
proof -
  define n where "n = sint w"
  define R where "R = f64_round (8106479329266893 * \<bar>n\<bar>)"
  have n: "\<bar>n\<bar> \<le> 10248191152" using assms by (simp add: n_def)
  have fn: "float64_of_int w = (n, 0)"
    using n by (simp add: float64_of_int_def n_def [symmetric] f64_round_small_abs)
  have R: "R div 9007199254740992 = 9 * \<bar>n\<bar> div 10" "0 \<le> R"
    unfolding R_def using n by (intro product_rounded; simp)+
  have prod: "f64_round (8106479329266893 * n) = sgn n * R"
  proof (cases "0 \<le> n")
    case True
    then show ?thesis
      by (cases "n = 0") (simp_all add: R_def f64_round_def)
  next
    case False
    then have "8106479329266893 * n = - (8106479329266893 * \<bar>n\<bar>)" by simp
    then have "f64_round (8106479329266893 * n) = - R"
      unfolding R_def by (simp only: f64_round_minus)
    with False show ?thesis by simp
  qed
  have eq: "sgn (sgn n * R) * (\<bar>sgn n * R\<bar> div 9007199254740992) = sgn n * (9 * \<bar>n\<bar> div 10)"
  proof (cases "R = 0")
    case True
    with R(1) show ?thesis by simp
  next
    case False
    with R(2) have "0 < R" by simp
    then show ?thesis
      using R(1) by (cases "n = 0") (simp_all add: sgn_mult abs_mult abs_sgn_eq)
  qed
  have "int_of_float64 (f64_mul f64_0_9 (float64_of_int w))
          = word_of_int (sgn (sgn n * R) * (\<bar>sgn n * R\<bar> div 9007199254740992))"
    unfolding fn f64_mul_def f64_0_9_def int_of_float64_def by (simp add: prod del: of_int_mult)
  then have "int_of_float64 (f64_mul f64_0_9 (float64_of_int w))
          = word_of_int (sgn n * (9 * \<bar>n\<bar> div 10))"
    by (simp only: eq)
  then show ?thesis
    by (simp only: n_def)
qed

lemma seconds_in_range:
  assumes "\<bar>q\<bar> \<le> 9223372036"
  shows "sint (word_of_int q * time_Second :: 64 word) = q * 1000000000"
proof -
  have small: "sint (word_of_int y :: 64 word) = y"
    if "- 9223372036854775808 \<le> y" and "y < 9223372036854775808" for y
    using that by (simp add: int_word_sint)
  have "sint (word_of_int (q * 1000000000) :: 64 word) = q * 1000000000"
    using assms by (intro small) simp_all
  moreover have "(word_of_int q * time_Second :: 64 word) = word_of_int (q * 1000000000)"
    by (simp add: time_Second_def)
  ultimately show ?thesis by simp
qed

lemma dvd_nine_times: "10 dvd 9 * n \<longleftrightarrow> 10 dvd n" for n :: int
proof
  assume "10 dvd 9 * n"
  then have "10 dvd 10 * n - 9 * n" by (intro dvd_diff) simp_all
  then show "10 dvd n" by simp
qed simp

lemma neg_floor: "- (9 * (- n) div 10) = 9 * n div 10 \<longleftrightarrow> 10 dvd n" for n :: int
proof -
  have "9 * (- n) div 10 = (- (9 * n)) div 10" by simp
  also have "\<dots> = (if 9 * n mod 10 = 0 then - (9 * n div 10) else - (9 * n div 10) - 1)"
    by (rule zdiv_zminus1_eq_if) simp
  finally have "- (9 * (- n) div 10) = 9 * n div 10 \<longleftrightarrow> 9 * n mod 10 = 0"
    by (simp split: if_splits)
  also have "\<dots> \<longleftrightarrow> 10 dvd 9 * n" by (simp only: dvd_eq_mod_eq_0)
  also have "\<dots> \<longleftrightarrow> 10 dvd n" by (rule dvd_nine_times)
  finally show ?thesis by simp
qed


lemma trunc_is_floor:
  "sgn n * (9 * \<bar>n\<bar> div 10) = 9 * n div 10 \<longleftrightarrow> 0 \<le> n \<or> 10 dvd n" for n :: int
proof (cases "0 \<le> n")
  case True
  then show ?thesis by (cases "n = 0") simp_all
next
  case False
  then have "sgn n = - 1" "\<bar>n\<bar> = - n" by simp_all
  then show ?thesis using False neg_floor [of n] by simp
qed

text \<open>
  The duration that is saved for a lifetime of \<open>n\<close> seconds, read as a signed number of
  nanoseconds.
\<close>

lemma saved_duration:
  fixes w :: "64 word"
  defines "n \<equiv> sint w"
  defines "d \<equiv> int_of_float64 (f64_mul f64_0_9 (float64_of_int w)) * time_Second"
  shows "\<bar>n\<bar> \<le> 10248191152 \<longrightarrow> sint d = sgn n * (9 * \<bar>n\<bar> div 10) * 1000000000"
    and "sint d = 9 * n div 10 * 1000000000 \<longleftrightarrow> \<bar>n\<bar> \<le> 10248191152 \<and> (0 \<le> n \<or> 10 dvd n)"
proof -
  have inr: "sint d = sgn n * (9 * \<bar>n\<bar> div 10) * 1000000000" if "\<bar>n\<bar> \<le> 10248191152"
  proof -
    have "0 \<le> 9 * \<bar>n\<bar> div 10" by simp
    moreover from that have "9 * \<bar>n\<bar> \<le> 92233720368" by simp
    then have "9 * \<bar>n\<bar> div 10 \<le> 92233720368 div 10" by (rule zdiv_mono1) simp
    then have "9 * \<bar>n\<bar> div 10 \<le> 9223372036" by simp
    ultimately
    have "\<bar>sgn n * (9 * \<bar>n\<bar> div 10)\<bar> \<le> 9223372036"
      by (simp add: abs_mult abs_sgn_eq)
    then have "sint (word_of_int (sgn n * (9 * \<bar>n\<bar> div 10)) * time_Second :: 64 word)
        = sgn n * (9 * \<bar>n\<bar> div 10) * 1000000000"
      by (rule seconds_in_range)
    moreover have "int_of_float64 (f64_mul f64_0_9 (float64_of_int w))
        = word_of_int (sgn n * (9 * \<bar>n\<bar> div 10))"
      unfolding n_def using that shrink_truncates [of w] by (simp only: n_def)
    ultimately show ?thesis
      unfolding d_def by (simp only:)
  qed
  then show "\<bar>n\<bar> \<le> 10248191152 \<longrightarrow> sint d = sgn n * (9 * \<bar>n\<bar> div 10) * 1000000000"
    by simp
  show "sint d = 9 * n div 10 * 1000000000 \<longleftrightarrow> \<bar>n\<bar> \<le> 10248191152 \<and> (0 \<le> n \<or> 10 dvd n)"
  proof (cases "\<bar>n\<bar> \<le> 10248191152")
    case True
    with inr trunc_is_floor [of n] show ?thesis by simp
  next
    case False
    have "- 9223372036854775808 \<le> sint d" "sint d < 9223372036854775808"
      using sint_ge [of d] sint_lt [of d] by simp_all
    moreover have "9 * n div 10 * 1000000000 < - 9223372036854775808
        \<or> 9223372036854775808 \<le> 9 * n div 10 * 1000000000"
    proof (cases "0 \<le> n")
      case True
      with False have "92233720377 \<le> 9 * n" by simp
      then have "92233720377 div 10 \<le> 9 * n div 10" by (rule zdiv_mono1) simp
      then have "9223372037 \<le> 9 * n div 10" by simp
      then show ?thesis by simp
    next
      case neg: False
      with False have "9 * n \<le> - 92233720377" by simp
      then have "9 * n div 10 \<le> - 92233720377 div 10" by (rule zdiv_mono1) simp
      then have "9 * n div 10 \<le> - 9223372038" by simp
      then show ?thesis by simp
    qed
    ultimately have "sint d \<noteq> 9 * n div 10 * 1000000000" by linarith
    with False show ?thesis by simp
  qed
qed

text \<open>
  A run that reaches the issuer and is granted a token: what it returns and what it saves.
\<close>

lemma issuer_grants:
  assumes "http_Get E tr0 (token_url E a s) = Inr x"
      and "StatusCode x = 200" and "Body x = (b, None)"
      and "json_tokenResult E b = Inr j" and "AccessToken j \<noteq> []"
  shows "refreshAccessTokenFromWXServer E a s tr0 =
           ((AccessToken j, ExpiresIn j, None),
            tr0 @ [Http_Get (token_url E a s) (Inr x), Body_Close x])"
  using assms by (simp add: refreshAccessTokenFromWXServer_def Let_def)

lemma refresh_and_save_granted:
  assumes "http_Get E tr0 (token_url E (Appid (Config ctx)) (Secret (Config ctx))) = Inr x"
      and "StatusCode x = 200" and "Body x = (b, None)"
      and "json_tokenResult E b = Inr j" and "AccessToken j \<noteq> []"
      and "tr1 = tr0 @ [Http_Get (token_url E (Appid (Config ctx)) (Secret (Config ctx))) (Inr x),
                        Body_Close x]"
      and "d = int_of_float64 (f64_mul f64_0_9 (float64_of_int (ExpiresIn j))) * time_Second"
  shows "\<exists>evs. refresh_and_save E ctx tr0 = ((AccessToken j, None), tr0 @ evs)
           \<and> filter is_save evs =
               [Cache_Save (Appid (Config ctx)) (AccessToken j) d
                  (Save E tr1 (Appid (Config ctx)) (AccessToken j) d)]"
  using assms(6,7) issuer_grants [OF assms(1-5)]
  by (cases "Logger ctx") (simp_all add: refresh_and_save_def Let_def is_save_def)

lemma token_manager_granted:
  assumes "f = NoticeRefreshAccessToken \<and> tr0 = tr @ [Mutex_Lock]
         \<or> f = GetAccessToken \<and> misses E ctx tr tr0"
      and "http_Get E tr0 (token_url E (Appid (Config ctx)) (Secret (Config ctx))) = Inr x"
      and "StatusCode x = 200" and "Body x = (b, None)"
      and "json_tokenResult E b = Inr j" and "AccessToken j \<noteq> []"
      and "tr1 = tr0 @ [Http_Get (token_url E (Appid (Config ctx)) (Secret (Config ctx))) (Inr x),
                        Body_Close x]"
      and "d = int_of_float64 (f64_mul f64_0_9 (float64_of_int (ExpiresIn j))) * time_Second"
  shows "fst (f E ctx tr) = (AccessToken j, None)
       \<and> filter is_save (new_calls tr (snd (f E ctx tr))) =
           [Cache_Save (Appid (Config ctx)) (AccessToken j) d
              (Save E tr1 (Appid (Config ctx)) (AccessToken j) d)]"
proof -
  from refresh_and_save_granted [OF assms(2-8)]
  obtain evs where run: "refresh_and_save E ctx tr0 = ((AccessToken j, None), tr0 @ evs)"
    and sv: "filter is_save evs =
               [Cache_Save (Appid (Config ctx)) (AccessToken j) d
                  (Save E tr1 (Appid (Config ctx)) (AccessToken j) d)]"
    by blast
  from assms(1) show ?thesis
  proof
    assume "f = NoticeRefreshAccessToken \<and> tr0 = tr @ [Mutex_Lock]"
    then have "f E ctx tr = ((AccessToken j, None), tr @ (Mutex_Lock # evs @ [Mutex_Unlock]))"
      using run by (simp add: NoticeRefreshAccessToken_def unlock_def)
    then show ?thesis using sv by (simp add: is_save_def)
  next
    assume g: "f = GetAccessToken \<and> misses E ctx tr tr0"
    define a where "a = Appid (Config ctx)"
    define r1 where "r1 = Fetch E tr a"
    define r2 where "r2 = Fetch E (tr @ [Cache_Fetch a r1, Mutex_Lock]) a"
    from g have m: "fst r1 = []" "fst r2 = []"
      "tr0 = tr @ [Cache_Fetch a r1, Mutex_Lock, Cache_Fetch a r2]"
      by (simp_all add: misses_def Let_def a_def r1_def r2_def)
    obtain e1 e2 where r: "r1 = ([], e1)" "r2 = ([], e2)"
      using m(1,2) by (cases r1; cases r2) simp
    have f1: "cache_fetch E ctx tr = (([], e1), tr @ [Cache_Fetch a r1])"
      by (simp add: cache_fetch_def Let_def a_def [symmetric] r1_def [symmetric] r(1) [symmetric])
    have f2: "cache_fetch E ctx (tr @ [Cache_Fetch a r1, Mutex_Lock]) = (([], e2), tr0)"
      by (simp add: cache_fetch_def Let_def a_def [symmetric] r2_def [symmetric] m(3)
            r(2) [symmetric])
    have "GetAccessToken E ctx tr = ((AccessToken j, None), tr0 @ evs @ [Mutex_Unlock])"
      by (simp add: GetAccessToken_def f1 f2 run unlock_def)
    then have "GetAccessToken E ctx tr =
            ((AccessToken j, None),
             tr @ (Cache_Fetch a r1 # Mutex_Lock # Cache_Fetch a r2 # evs @ [Mutex_Unlock]))"
      by (simp add: m(3))
    with g show ?thesis using sv by (simp add: is_save_def)
  qed
qed


subsection \<open>Runs in the concrete world\<close>

lemma issuer_step:
  assumes "http_Get E tr (token_url E a s) = Inr (ok200 b)"
      and "json_tokenResult E b = Inr j"
  shows "refreshAccessTokenFromWXServer E a s tr =
           ((if AccessToken j = [] then ([], 0, Some (fmt_Errorf b))
             else (AccessToken j, ExpiresIn j, None)),
            tr @ [Http_Get (token_url E a s) (Inr (ok200 b)), Body_Close (ok200 b)])"
  using assms by (simp add: refreshAccessTokenFromWXServer_def Let_def) (simp add: ok200_def)

lemma demo_token_url [simp]:
  "token_url (demo_env first second) ''wx1'' ''s3'' = demo_token_url"
  "token_url broken_cache_env ''wx1'' ''s3'' = demo_token_url"
  by (simp_all add: token_url_def demo_env_def broken_cache_env_def WXServerUrl_def
        demo_token_url_def)

lemma demo_http_Get_token [simp]:
  "http_Get (demo_env first second) tr demo_token_url =
     Inr (ok200 (if filter is_token_request (calls tr) = [] then first else second))"
  "http_Get broken_cache_env tr demo_token_url =
     Inr (ok200 (if filter is_token_request (calls tr) = [] then body_T1 else body_T2))"
  by (simp_all add: demo_env_def broken_cache_env_def demo_answer_def demo_token_url_def)

lemma demo_json [simp]:
  "json_tokenResult (demo_env first second) = demo_tokenResult"
  "json_tokenResult broken_cache_env = demo_tokenResult"
  "json_errorResponse (demo_env first second) = demo_errorResponse"
  "json_errorResponse broken_cache_env = demo_errorResponse"
  by (simp_all add: demo_env_def broken_cache_env_def)

lemma demo_tokenResult_simps [simp]:
  "demo_tokenResult body_T1 = Inr \<lparr>AccessToken = ''T1'', ExpiresIn = 7200\<rparr>"
  "demo_tokenResult body_T2 = Inr \<lparr>AccessToken = ''T2'', ExpiresIn = 7200\<rparr>"
  "demo_tokenResult body_T3 = Inr \<lparr>AccessToken = ''T3'', ExpiresIn = - 5\<rparr>"
  "demo_tokenResult body_T4 = Inr \<lparr>AccessToken = ''T4'', ExpiresIn = 10248191153\<rparr>"
  "demo_tokenResult body_ip = Inr \<lparr>AccessToken = [], ExpiresIn = 0\<rparr>"
  by (simp_all add: demo_tokenResult_def body_defs)

lemma shrink_values:
  "int_of_float64 (f64_mul f64_0_9 (float64_of_int 7200)) = 6480"
  "int_of_float64 (f64_mul f64_0_9 (float64_of_int (- 5))) = - 4"
  "int_of_float64 (f64_mul f64_0_9 (float64_of_int 10248191153)) = 9223372037"
  by code_simp+

lemma demo_cache [simp]:
  "Fetch (demo_env first second) tr k = (saved tr k, None)"
  "Save (demo_env first second) tr k v d = None"
  "Fetch broken_cache_env tr k = ([], Some (Foreign ''cache unreachable''))"
  "Save broken_cache_env tr k v d = Some (Foreign ''cache unreachable'')"
  by (simp_all add: demo_env_def broken_cache_env_def)

lemmas run_defs = GetAccessToken_def NoticeRefreshAccessToken_def cache_fetch_def unlock_def
  refresh_and_save_def Let_def demo_ctx_def calls_def is_token_request_def time_Second_def
  shrink_values saved_def

lemma run_forced:
  "NoticeRefreshAccessToken (demo_env body_T1 body_T2) demo_ctx trace_cached
     = ((''T1'', None), trace_cached @ calls_forced)"
  by (simp add: run_defs trace_cached_def calls_forced_def issuer_step [where b = body_T1])

lemma run_negative:
  "NoticeRefreshAccessToken (demo_env body_T3 body_T3) demo_ctx [] =
     ((''T3'', None),
      [Mutex_Lock,
       Http_Get demo_token_url (Inr (ok200 body_T3)),
       Body_Close (ok200 body_T3),
       Cache_Save ''wx1'' ''T3'' (- 4000000000) None,
       Logger_Printf ''%s %s %d\<newline>''
         [ArgS ''refreshAccessTokenFromWXServer'', ArgS ''T3'', ArgD (- 4)],
       Mutex_Unlock])"
  by (simp add: run_defs issuer_step [where b = body_T3])

lemma run_huge:
  "NoticeRefreshAccessToken (demo_env body_T4 body_T4) demo_ctx [] =
     ((''T4'', None),
      [Mutex_Lock,
       Http_Get demo_token_url (Inr (ok200 body_T4)),
       Body_Close (ok200 body_T4),
       Cache_Save ''wx1'' ''T4'' (- 9223372036709551616) None,
       Logger_Printf ''%s %s %d\<newline>''
         [ArgS ''refreshAccessTokenFromWXServer'', ArgS ''T4'', ArgD 9223372037],
       Mutex_Unlock])"
  by (simp add: run_defs issuer_step [where b = body_T4])

text \<open>
  C6 (amended). Let a run of \<open>NoticeRefreshAccessToken\<close>, or a run of \<open>GetAccessToken\<close> whose
  two look-ups find no token, get from the issuer a response with status 200 and a body that
  decodes to a non-empty token and a lifetime of \<open>n\<close> seconds. Then the run calls \<open>Save\<close>
  exactly once, with that token under the application's id and a duration \<open>d\<close> such that:
  if \<open>\<bar>n\<bar> \<le> 10248191152\<close>, then \<open>d\<close> is \<open>0.9 * n\<close> seconds with the fraction dropped, that is
  \<open>sgn n * (9 * \<bar>n\<bar> div 10) * 10\<^sup>9\<close> nanoseconds; and \<open>d\<close> is \<open>0.9 * n\<close> seconds rounded down, that
  is \<open>(9 * n div 10) * 10\<^sup>9\<close> nanoseconds, if and only if \<open>\<bar>n\<bar> \<le> 10248191152\<close> and \<open>n\<close> is either
  not negative or a multiple of 10. For \<open>n = 7200\<close> the duration is 6480 seconds.
\<close>

theorem ttl_is_nine_tenths:
  assumes "f = NoticeRefreshAccessToken \<and> tr0 = tr @ [Mutex_Lock]
         \<or> f = GetAccessToken \<and> misses E ctx tr tr0"
      and "http_Get E tr0 (token_url E (Appid (Config ctx)) (Secret (Config ctx))) = Inr x"
      and "StatusCode x = 200" and "Body x = (b, None)"
      and "json_tokenResult E b = Inr j" and "AccessToken j \<noteq> []"
      and "n = sint (ExpiresIn j)"
      and "d = int_of_float64 (f64_mul f64_0_9 (float64_of_int (ExpiresIn j))) * time_Second"
  shows "(\<exists>s. filter is_save (new_calls tr (snd (f E ctx tr))) =
               [Cache_Save (Appid (Config ctx)) (AccessToken j) d s])
       \<and> (\<bar>n\<bar> \<le> 10248191152 \<longrightarrow> sint d = sgn n * (9 * \<bar>n\<bar> div 10) * 1000000000)
       \<and> (sint d = 9 * n div 10 * 1000000000 \<longleftrightarrow>
            \<bar>n\<bar> \<le> 10248191152 \<and> (0 \<le> n \<or> 10 dvd n))"
  using token_manager_granted [OF assms(1-6) refl assms(8)]
    saved_duration [of "ExpiresIn j"] assms(7,8)
  by simp

theorem ttl_is_nine_tenths_witness:
  "(\<exists>s. filter is_save (new_calls trace_cached
           (snd (NoticeRefreshAccessToken (demo_env body_T1 body_T2) demo_ctx trace_cached))) =
         [Cache_Save ''wx1'' ''T1'' 6480000000000 s])
   \<and> (\<exists>s. filter is_save (new_calls []
           (snd (GetAccessToken broken_cache_env demo_ctx []))) =
         [Cache_Save ''wx1'' ''T1'' 6480000000000 s])
   \<and> sint (6480000000000 :: 64 word) = 9 * 7200 div 10 * 1000000000
   \<and> (\<exists>s. filter is_save (new_calls []
           (snd (NoticeRefreshAccessToken (demo_env body_T3 body_T3) demo_ctx []))) =
         [Cache_Save ''wx1'' ''T3'' (- 4000000000) s])
   \<and> sint (- 4000000000 :: 64 word) = - (9 * 5 div 10) * 1000000000
   \<and> sint (- 4000000000 :: 64 word) \<noteq> 9 * (- 5) div 10 * 1000000000"
proof -
  let ?j = "\<lparr>AccessToken = ''T1'', ExpiresIn = 7200\<rparr>"
  let ?k = "\<lparr>AccessToken = ''T3'', ExpiresIn = - 5\<rparr>"
  let ?c = "[Cache_Fetch ''wx1'' ([], Some (Foreign ''cache unreachable'')), Mutex_Lock,
             Cache_Fetch ''wx1'' ([], Some (Foreign ''cache unreachable''))]"
  have s: "NoticeRefreshAccessToken = NoticeRefreshAccessToken
             \<and> trace_cached @ [Mutex_Lock] = trace_cached @ [Mutex_Lock]
           \<or> NoticeRefreshAccessToken = GetAccessToken
             \<and> misses (demo_env body_T1 body_T2) demo_ctx trace_cached (trace_cached @ [Mutex_Lock])"
    "GetAccessToken = NoticeRefreshAccessToken \<and> ?c = [] @ [Mutex_Lock]
           \<or> GetAccessToken = GetAccessToken \<and> misses broken_cache_env demo_ctx [] ?c"
    "NoticeRefreshAccessToken = NoticeRefreshAccessToken \<and> [Mutex_Lock] = [] @ [Mutex_Lock]
           \<or> NoticeRefreshAccessToken = GetAccessToken
             \<and> misses (demo_env body_T3 body_T3) demo_ctx [] [Mutex_Lock]"
    by (simp_all add: misses_def demo_ctx_def)
  have g: "http_Get (demo_env body_T1 body_T2) (trace_cached @ [Mutex_Lock])
             (token_url (demo_env body_T1 body_T2) (Appid (Config demo_ctx))
                (Secret (Config demo_ctx))) = Inr (ok200 body_T1)"
    "http_Get broken_cache_env ?c
             (token_url broken_cache_env (Appid (Config demo_ctx))
                (Secret (Config demo_ctx))) = Inr (ok200 body_T1)"
    "http_Get (demo_env body_T3 body_T3) [Mutex_Lock]
             (token_url (demo_env body_T3 body_T3) (Appid (Config demo_ctx))
                (Secret (Config demo_ctx))) = Inr (ok200 body_T3)"
    by (simp_all add: demo_ctx_def calls_def is_token_request_def trace_cached_def)
  have x: "StatusCode (ok200 body_T1) = 200" "Body (ok200 body_T1) = (body_T1, None)"
    "StatusCode (ok200 body_T3) = 200" "Body (ok200 body_T3) = (body_T3, None)"
    by (simp_all add: ok200_def)
  have j: "json_tokenResult (demo_env body_T1 body_T2) body_T1 = Inr ?j"
    "json_tokenResult broken_cache_env body_T1 = Inr ?j"
    "json_tokenResult (demo_env body_T3 body_T3) body_T3 = Inr ?k"
    "AccessToken ?j \<noteq> []" "AccessToken ?k \<noteq> []"
    "7200 = sint (ExpiresIn ?j)" "- 5 = sint (ExpiresIn ?k)"
    by simp_all
  have d: "6480000000000 =
             int_of_float64 (f64_mul f64_0_9 (float64_of_int (ExpiresIn ?j))) * time_Second"
    "- 4000000000 =
             int_of_float64 (f64_mul f64_0_9 (float64_of_int (ExpiresIn ?k))) * time_Second"
    by (simp_all add: shrink_values time_Second_def)
  from ttl_is_nine_tenths [OF s(1) g(1) x(1,2) j(1,4,6) d(1)]
       ttl_is_nine_tenths [OF s(2) g(2) x(1,2) j(2,4,6) d(1)]
       ttl_is_nine_tenths [OF s(3) g(3) x(3,4) j(3,5,7) d(2)]
  show ?thesis
    by (simp add: demo_ctx_def)
qed

text \<open>
  C6 as stated fails for a negative lifetime that is no multiple of 10, where the fraction
  is dropped towards zero (\<open>n = -5\<close> is saved as -4 seconds), and for a lifetime of magnitude
  above 10248191152, where \<open>0.9 * n\<close> seconds are more nanoseconds than 64 bits hold
  (\<open>n = 10248191153\<close> is saved as a negative duration).
\<close>

theorem ttl_counterexample:
  "demo_tokenResult body_T3 = Inr \<lparr>AccessToken = ''T3'', ExpiresIn = - 5\<rparr>
   \<and> filter is_save (snd (NoticeRefreshAccessToken (demo_env body_T3 body_T3) demo_ctx []))
       = [Cache_Save ''wx1'' ''T3'' (- 4000000000) None]
   \<and> sint (- 4000000000 :: 64 word) = - 4 * 1000000000
   \<and> sint (- 4000000000 :: 64 word) \<noteq> 9 * (- 5) div 10 * 1000000000
   \<and> demo_tokenResult body_T4 = Inr \<lparr>AccessToken = ''T4'', ExpiresIn = 10248191153\<rparr>
   \<and> filter is_save (snd (NoticeRefreshAccessToken (demo_env body_T4 body_T4) demo_ctx []))
       = [Cache_Save ''wx1'' ''T4'' (- 9223372036709551616) None]
   \<and> sint (- 9223372036709551616 :: 64 word) = - 9223372036709551616
   \<and> sint (- 9223372036709551616 :: 64 word) \<noteq> 9 * 10248191153 div 10 * 1000000000"
  by (simp add: run_negative run_huge is_save_def)

text \<open>
  C10. Let a run of \<open>NoticeRefreshAccessToken\<close>, or a run of \<open>GetAccessToken\<close> whose two
  look-ups find no token, get from the issuer a response with status 200 and a body that
  decodes to a non-empty token, and let the call of \<open>Save\<close> that follows return an error.
  Then the function returns that token with a \<open>nil\<close> error; the failed \<open>Save\<close> is the only
  one of the run, and its error occurs nowhere in the result.
\<close>

theorem save_error_is_discarded:
  assumes "f = NoticeRefreshAccessToken \<and> tr0 = tr @ [Mutex_Lock]
         \<or> f = GetAccessToken \<and> misses E ctx tr tr0"
      and "http_Get E tr0 (token_url E (Appid (Config ctx)) (Secret (Config ctx))) = Inr x"
      and "StatusCode x = 200" and "Body x = (b, None)"
      and "json_tokenResult E b = Inr j" and "AccessToken j \<noteq> []"
      and "tr1 = tr0 @ [Http_Get (token_url E (Appid (Config ctx)) (Secret (Config ctx))) (Inr x),
                        Body_Close x]"
      and "d = int_of_float64 (f64_mul f64_0_9 (float64_of_int (ExpiresIn j))) * time_Second"
      and "Save E tr1 (Appid (Config ctx)) (AccessToken j) d = Some e"
  shows "fst (f E ctx tr) = (AccessToken j, None)
       \<and> filter is_save (new_calls tr (snd (f E ctx tr))) =
           [Cache_Save (Appid (Config ctx)) (AccessToken j) d (Some e)]"
  using token_manager_granted [OF assms(1-8)] assms(9) by simp

theorem save_error_is_discarded_witness:
  "fst (GetAccessToken broken_cache_env demo_ctx []) = (''T1'', None)
   \<and> filter is_save (new_calls [] (snd (GetAccessToken broken_cache_env demo_ctx []))) =
       [Cache_Save ''wx1'' ''T1'' 6480000000000 (Some (Foreign ''cache unreachable''))]
   \<and> fst (NoticeRefreshAccessToken broken_cache_env demo_ctx []) = (''T1'', None)
   \<and> filter is_save (new_calls [] (snd (NoticeRefreshAccessToken broken_cache_env demo_ctx []))) =
       [Cache_Save ''wx1'' ''T1'' 6480000000000 (Some (Foreign ''cache unreachable''))]"
proof -
  let ?j = "\<lparr>AccessToken = ''T1'', ExpiresIn = 7200\<rparr>"
  let ?c = "[Cache_Fetch ''wx1'' ([], Some (Foreign ''cache unreachable'')), Mutex_Lock,
             Cache_Fetch ''wx1'' ([], Some (Foreign ''cache unreachable''))]"
  have s: "GetAccessToken = NoticeRefreshAccessToken \<and> ?c = [] @ [Mutex_Lock]
           \<or> GetAccessToken = GetAccessToken \<and> misses broken_cache_env demo_ctx [] ?c"
    "NoticeRefreshAccessToken = NoticeRefreshAccessToken \<and> [Mutex_Lock] = [] @ [Mutex_Lock]
           \<or> NoticeRefreshAccessToken = GetAccessToken
             \<and> misses broken_cache_env demo_ctx [] [Mutex_Lock]"
    by (simp_all add: misses_def demo_ctx_def)
  have g: "http_Get broken_cache_env ?c
             (token_url broken_cache_env (Appid (Config demo_ctx))
                (Secret (Config demo_ctx))) = Inr (ok200 body_T1)"
    "http_Get broken_cache_env [Mutex_Lock]
             (token_url broken_cache_env (Appid (Config demo_ctx))
                (Secret (Config demo_ctx))) = Inr (ok200 body_T1)"
    by (simp_all add: demo_ctx_def calls_def is_token_request_def)
  have x: "StatusCode (ok200 body_T1) = 200" "Body (ok200 body_T1) = (body_T1, None)"
    by (simp_all add: ok200_def)
  have j: "json_tokenResult broken_cache_env body_T1 = Inr ?j" "AccessToken ?j \<noteq> []"
    by simp_all
  have d: "6480000000000 =
             int_of_float64 (f64_mul f64_0_9 (float64_of_int (ExpiresIn ?j))) * time_Second"
    by (simp add: shrink_values time_Second_def)
  have e: "Save broken_cache_env tr1 (Appid (Config demo_ctx)) (AccessToken ?j) 6480000000000
             = Some (Foreign ''cache unreachable'')" for tr1
    by simp
  from save_error_is_discarded [OF s(1) g(1) x j refl d e]
       save_error_is_discarded [OF s(2) g(2) x j refl d e]
  show ?thesis
    by (simp add: demo_ctx_def)
qed

text \<open>
  C8. \<open>NoticeRefreshAccessToken\<close> never calls \<open>Fetch\<close>. Its first two calls are the
  acquisition of the lock and the request to the issuer, and it sends no other request.
  If the issuer's response has status 200 and a body that decodes to a non-empty token,
  the function returns that token and has called \<open>Save\<close> once, with that token under
  the application's id. All this holds whatever the cache would have answered.
\<close>

theorem forced_refresh_ignores_cache:
  assumes "NoticeRefreshAccessToken E ctx tr = (res, tr')"
  shows "filter is_fetch (new_calls tr tr') = []
       \<and> take 2 (new_calls tr tr') =
           [Mutex_Lock,
            Http_Get (token_url E (Appid (Config ctx)) (Secret (Config ctx)))
              (http_Get E (tr @ [Mutex_Lock])
                 (token_url E (Appid (Config ctx)) (Secret (Config ctx))))]
       \<and> length (filter is_request (new_calls tr tr')) = 1
       \<and> (\<forall>u x b j. Http_Get u (Inr x) \<in> set (new_calls tr tr') \<and> StatusCode x = 200
              \<and> Body x = (b, None) \<and> json_tokenResult E b = Inr j \<and> AccessToken j \<noteq> [] \<longrightarrow>
            res = (AccessToken j, None)
            \<and> (\<exists>d s. filter is_save (new_calls tr tr') =
                        [Cache_Save (Appid (Config ctx)) (AccessToken j) d s]))"
  using assms
  by (auto simp: tm_defs ev_defs split: prod.splits sum.splits option.splits if_splits)

theorem forced_refresh_ignores_cache_witness:
  "Fetch (demo_env body_T1 body_T2) trace_cached ''wx1'' = (''T0'', None)
   \<and> NoticeRefreshAccessToken (demo_env body_T1 body_T2) demo_ctx trace_cached
       = ((''T1'', None), trace_cached @ calls_forced)
   \<and> filter is_fetch calls_forced = []
   \<and> take 2 calls_forced = [Mutex_Lock, Http_Get demo_token_url (Inr (ok200 body_T1))]
   \<and> length (filter is_request calls_forced) = 1
   \<and> filter is_save calls_forced = [Cache_Save ''wx1'' ''T1'' 6480000000000 None]"
proof -
  have "Fetch (demo_env body_T1 body_T2) trace_cached ''wx1'' = (''T0'', None)"
    by (simp add: saved_def calls_def trace_cached_def)
  moreover have "filter is_save calls_forced = [Cache_Save ''wx1'' ''T1'' 6480000000000 None]"
    by (simp add: calls_forced_def is_save_def)
  moreover have "take 2 calls_forced = [Mutex_Lock, Http_Get demo_token_url (Inr (ok200 body_T1))]"
    by (simp add: calls_forced_def)
  moreover from forced_refresh_ignores_cache [OF run_forced, unfolded new_calls_append]
  have "filter is_fetch calls_forced = []" and "length (filter is_request calls_forced) = 1"
    by blast+
  ultimately show ?thesis using run_forced by simp
qed

subsection \<open>The shape of a run of the client\<close>

lemmas ob_defs = is_request_def is_forced_refresh_def handler_failed_def response_of_def

lemma applyAccessToken_shape:
  "\<exists>r evs. snd (applyAccessToken getH ctx url tr) = tr @ [Handler_Call GetAccessTokenHandler r evs]
     \<and> snd (fst (applyAccessToken getH ctx url tr)) = snd r"
  by (auto simp add: applyAccessToken_def call_handler_def split: prod.split option.split)

lemma HTTPGet_retry_shape:
  "\<exists>evs. snd (HTTPGet_retry E getH refH ctx uri tr) = tr @ evs
        \<and> retry_shape E (fst (HTTPGet_retry E getH refH ctx uri tr)) evs"
  by (auto simp add: HTTPGet_retry_def applyAccessToken_def call_handler_def Let_def retry_shape_def
        ob_defs split: prod.split option.split sum.split)

lemma one_retry_no_request: "filter is_request evs = [] \<Longrightarrow> one_retry E res evs"
  by (simp add: one_retry_def)

lemma one_retry_no_refresh:
  assumes "filter is_request evs = [q]"
      and "\<forall>r. response_of q = Some r \<longrightarrow> snd (responseFilter E r) \<noteq> Some NeedRefreshAccessTokenError"
  shows "one_retry E res evs"
  using assms by (auto simp: one_retry_def)

lemma one_retry_compose:
  assumes "filter is_request pre = []" and "filter is_forced_refresh pre = []"
      and "filter handler_failed pre = []"
      and "is_request q" and "\<not> is_forced_refresh q" and "\<not> handler_failed q"
      and "retry_shape E out evs"
      and "filter is_request suf = []" and "filter is_forced_refresh suf = []"
      and "filter handler_failed suf = []"
      and "res = (case out of None \<Rightarrow> old | Some x \<Rightarrow> x)"
  shows "one_retry E res (pre @ q # evs @ suf)"
  using assms by (auto simp: one_retry_def retry_shape_def)

lemma HTTPGet_shape:
  "\<exists>evs. snd (HTTPGet E getH refH ctx uri tr) = tr @ evs
        \<and> one_retry E (fst (HTTPGet E getH refH ctx uri tr)) evs"
proof -
  obtain r0 evs0 where h: "getH ctx tr = (r0, evs0)" by (cases "getH ctx tr")
  define u where "u = fst (fst (applyAccessToken getH ctx uri tr))"
  define tr1 where "tr1 = tr @ [Handler_Call GetAccessTokenHandler r0 evs0]"
  have a: "applyAccessToken getH ctx uri tr = ((u, snd r0), tr1)"
    by (cases r0) (simp add: u_def tr1_def applyAccessToken_def call_handler_def h split: option.split)
  show ?thesis
  proof (cases "snd r0")
    case (Some e)
    then have "HTTPGet E getH refH ctx uri tr = (([], Some e), tr1)"
      by (simp add: HTTPGet_def a)
    then show ?thesis
      by (simp add: tr1_def one_retry_no_request is_request_def)
  next
    case None
    define lg where "lg = (if Logger ctx then [Logger_Printf ''GET %s'' [ArgS u]] else [])"
    define pre where "pre = Handler_Call GetAccessTokenHandler r0 evs0 # lg"
    define r where "r = http_Get E (tr @ pre) (WXServerUrl @ u)"
    define q where "q = Http_Get (WXServerUrl @ u) r"
    have pre: "filter is_request pre = []" "filter is_forced_refresh pre = []"
      "filter handler_failed pre = []"
      using None by (simp_all add: pre_def lg_def ob_defs)
    have q: "is_request q" "\<not> is_forced_refresh q" "\<not> handler_failed q"
      by (simp_all add: q_def ob_defs)
    show ?thesis
    proof (cases r)
      case (Inl e)
      then have "HTTPGet E getH refH ctx uri tr = (([], Some e), tr @ pre @ [q])"
        using None by (cases "Logger ctx") (simp_all add: HTTPGet_def a tr1_def pre_def lg_def q_def r_def Let_def)
      moreover have "one_retry E ([], Some e) (pre @ [q])"
        using pre Inl by (intro one_retry_no_refresh [where q = q])
          (simp_all add: q ob_defs q_def)
      ultimately show ?thesis by simp
    next
      case (Inr response)
      obtain resp ferr where f: "responseFilter E response = (resp, ferr)"
        by (cases "responseFilter E response")
      show ?thesis
      proof (cases "ferr = Some NeedRefreshAccessTokenError")
        case False
        then have "HTTPGet E getH refH ctx uri tr
                     = ((resp, ferr), tr @ pre @ [q] @ [Body_Close response])"
          using None Inr f
          by (cases "Logger ctx") (simp_all add: HTTPGet_def a tr1_def pre_def lg_def q_def r_def Let_def)
        moreover have "one_retry E (resp, ferr) (pre @ [q] @ [Body_Close response])"
          using pre Inr f False by (intro one_retry_no_refresh [where q = q])
            (simp_all add: q ob_defs q_def)
        ultimately show ?thesis by simp
      next
        case True
        obtain out evs where
          t: "HTTPGet_retry E getH refH ctx u (tr @ pre @ [q]) = (out, (tr @ pre @ [q]) @ evs)"
          and s: "retry_shape E out evs"
          using HTTPGet_retry_shape [of E getH refH ctx u "tr @ pre @ [q]"]
          by (metis prod.collapse)
        have "HTTPGet E getH refH ctx uri tr
                = ((case out of None \<Rightarrow> (resp, ferr) | Some x \<Rightarrow> x),
                   tr @ pre @ q # evs @ [Body_Close response])"
          using None Inr f True t
          by (cases "Logger ctx")
             (simp_all add: HTTPGet_def a tr1_def pre_def lg_def q_def r_def Let_def split: option.split)
        moreover have "one_retry E (case out of None \<Rightarrow> (resp, ferr) | Some x \<Rightarrow> x)
                         (pre @ q # evs @ [Body_Close response])"
          by (rule one_retry_compose [OF pre q s]) (simp_all add: ob_defs)
        ultimately show ?thesis by simp
      qed
    qed
  qed
qed

lemma take_min_length: "take (min (length xs) n) xs = take n xs"
  by (simp add: min_def)

lemma drop_min_length: "drop (min (length xs) n) xs = drop n xs"
  by (simp add: min_def)

lemma post_shape:
  "\<exists>s r rd'. post E url ct payload w = (r, \<lparr>trace = trace w @ [Http_Post url ct payload s r], readers = rd'\<rparr>)
      \<and> reads_from payload (readers w) [Http_Post url ct payload s r] rd'"
  by (cases w) (auto simp add: post_def take_min_length drop_min_length split: option.split prod.split)

lemma world_trace_update: "w\<lparr>trace := t\<rparr> = \<lparr>trace = t, readers = readers w\<rparr>"
  by (cases w) simp

lemma HTTPPost_retry_shape:
  "\<exists>evs rd'. snd (HTTPPost_retry E getH refH ctx uri payload ct w)
                = \<lparr>trace = trace w @ evs, readers = rd'\<rparr>
        \<and> retry_shape E (fst (HTTPPost_retry E getH refH ctx uri payload ct w)) evs
        \<and> reads_from payload (readers w) (filter is_request evs) rd'"
proof -
  obtain r1 evs1 where h1: "refH ctx (trace w) = (r1, evs1)" by (cases "refH ctx (trace w)")
  define H1 where "H1 = Handler_Call GetRefreshAccessTokenHandler r1 evs1"
  have c1: "call_handler GetRefreshAccessTokenHandler refH ctx (trace w) = (r1, trace w @ [H1])"
    by (simp add: call_handler_def h1 H1_def)
  show ?thesis
  proof (cases "snd r1")
    case (Some e)
    then have "HTTPPost_retry E getH refH ctx uri payload ct w
                 = (None, \<lparr>trace = trace w @ [H1], readers = readers w\<rparr>)"
      by (cases r1) (simp add: HTTPPost_retry_def c1 world_trace_update)
    moreover have "retry_shape E None [H1]"
      using Some by (simp add: retry_shape_def H1_def ob_defs)
    ultimately show ?thesis by (simp add: H1_def ob_defs)
  next
    case None
    obtain r2 evs2 where h2: "getH ctx (trace w @ [H1]) = (r2, evs2)"
      by (cases "getH ctx (trace w @ [H1])")
    define H2 where "H2 = Handler_Call GetAccessTokenHandler r2 evs2"
    define u where "u = fst (fst (applyAccessToken getH ctx uri (trace w @ [H1])))"
    have a: "applyAccessToken getH ctx uri (trace w @ [H1]) = ((u, snd r2), trace w @ [H1, H2])"
      by (cases r2)
         (simp add: u_def H2_def applyAccessToken_def call_handler_def h2 split: option.split)
    show ?thesis
    proof (cases "snd r2")
      case (Some e)
      then have "HTTPPost_retry E getH refH ctx uri payload ct w
                   = (None, \<lparr>trace = trace w @ [H1, H2], readers = readers w\<rparr>)"
        using None by (cases r1) (simp add: HTTPPost_retry_def c1 a world_trace_update)
      moreover have "retry_shape E None [H1, H2]"
        using Some by (simp add: retry_shape_def H1_def H2_def ob_defs)
      ultimately show ?thesis by (simp add: H1_def H2_def ob_defs)
    next
      case r2None: None
      define lg where "lg = (if Logger ctx
          then [Logger_Printf ''Refresh Access Token Second POST %s'' [ArgS u]] else [])"
      define w3 where "w3 = \<lparr>trace = trace w @ [H1, H2] @ lg, readers = readers w\<rparr>"
      obtain s r rd' where
        p: "post E (WXServerUrl @ u) ct payload w3
              = (r, \<lparr>trace = trace w3 @ [Http_Post (WXServerUrl @ u) ct payload s r], readers = rd'\<rparr>)"
        and rf: "reads_from payload (readers w3) [Http_Post (WXServerUrl @ u) ct payload s r] rd'"
        using post_shape [of E "WXServerUrl @ u" ct payload w3] by blast
      define Q where "Q = Http_Post (WXServerUrl @ u) ct payload s r"
      have flt: "filter is_request ([H1, H2] @ lg @ [Q]) = [Q]"
        "filter is_forced_refresh ([H1, H2] @ lg @ [Q]) = [H1]"
        "filter handler_failed ([H1, H2] @ lg @ [Q]) = []"
        using None r2None by (simp_all add: H1_def H2_def lg_def Q_def ob_defs)
      show ?thesis
      proof (cases r)
        case (Inl e)
        have "HTTPPost_retry E getH refH ctx uri payload ct w
                = (None, \<lparr>trace = trace w @ [H1, H2] @ lg @ [Q], readers = rd'\<rparr>)"
          using None r2None Inl p
          by (cases r1; cases "Logger ctx")
             (simp_all add: HTTPPost_retry_def c1 a world_trace_update Let_def lg_def w3_def Q_def)
        moreover have "retry_shape E None ([H1, H2] @ lg @ [Q])"
          unfolding retry_shape_def flt using Inl by (simp add: Q_def H1_def ob_defs)
        moreover have "reads_from payload (readers w) (filter is_request ([H1, H2] @ lg @ [Q])) rd'"
          unfolding flt using rf by (simp add: w3_def Q_def)
        ultimately show ?thesis by (metis fst_conv snd_conv)
      next
        case (Inr response)
        have "HTTPPost_retry E getH refH ctx uri payload ct w
                = (Some (responseFilter E response),
                   \<lparr>trace = trace w @ [H1, H2] @ lg @ [Q] @ [Body_Close response], readers = rd'\<rparr>)"
          using None r2None Inr p
          by (cases r1; cases "Logger ctx")
             (simp_all add: HTTPPost_retry_def c1 a world_trace_update Let_def lg_def w3_def Q_def)
        moreover have flt': "filter is_request ([H1, H2] @ lg @ [Q] @ [Body_Close response]) = [Q]"
          "filter is_forced_refresh ([H1, H2] @ lg @ [Q] @ [Body_Close response]) = [H1]"
          "filter handler_failed ([H1, H2] @ lg @ [Q] @ [Body_Close response]) = []"
          using None r2None by (simp_all add: H1_def H2_def lg_def Q_def ob_defs)
        have "retry_shape E (Some (responseFilter E response))
                ([H1, H2] @ lg @ [Q] @ [Body_Close response])"
          unfolding retry_shape_def flt' using Inr by (simp add: Q_def H1_def ob_defs)
        moreover have "reads_from payload (readers w)
            (filter is_request ([H1, H2] @ lg @ [Q] @ [Body_Close response])) rd'"
          unfolding flt' using rf by (simp add: w3_def Q_def)
        ultimately show ?thesis by (metis fst_conv snd_conv)
      qed
    qed
  qed
qed

lemma reads_from_append:
  "reads_from p rd xs rd1 \<Longrightarrow> reads_from p rd1 ys rd' \<Longrightarrow> reads_from p rd (xs @ ys) rd'"
  by (induction p rd xs rd1 rule: reads_from.induct) (auto split: option.splits)

lemma HTTPPost_shape:
  "\<exists>evs rd'. snd (HTTPPost E getH refH ctx uri payload ct w)
                = \<lparr>trace = trace w @ evs, readers = rd'\<rparr>
        \<and> one_retry E (fst (HTTPPost E getH refH ctx uri payload ct w)) evs
        \<and> reads_from payload (readers w) (filter is_request evs) rd'"
proof -
  obtain r0 evs0 where h: "getH ctx (trace w) = (r0, evs0)" by (cases "getH ctx (trace w)")
  define H0 where "H0 = Handler_Call GetAccessTokenHandler r0 evs0"
  define u where "u = fst (fst (applyAccessToken getH ctx uri (trace w)))"
  have a: "applyAccessToken getH ctx uri (trace w) = ((u, snd r0), trace w @ [H0])"
    by (cases r0) (simp add: u_def H0_def applyAccessToken_def call_handler_def h split: option.split)
  show ?thesis
  proof (cases "snd r0")
    case (Some e)
    then have "HTTPPost E getH refH ctx uri payload ct w
                 = (([], Some e), \<lparr>trace = trace w @ [H0], readers = readers w\<rparr>)"
      by (simp add: HTTPPost_def a world_trace_update)
    then show ?thesis
      by (simp add: H0_def one_retry_no_request is_request_def)
  next
    case None
    define lg where "lg = (if Logger ctx then [Logger_Printf ''POST %s'' [ArgS u]] else [])"
    define pre where "pre = H0 # lg"
    define w2 where "w2 = \<lparr>trace = trace w @ pre, readers = readers w\<rparr>"
    obtain s r rd1 where
      p: "post E (WXServerUrl @ u) ct payload w2
            = (r, \<lparr>trace = trace w2 @ [Http_Post (WXServerUrl @ u) ct payload s r], readers = rd1\<rparr>)"
      and rf: "reads_from payload (readers w2) [Http_Post (WXServerUrl @ u) ct payload s r] rd1"
      using post_shape [of E "WXServerUrl @ u" ct payload w2] by blast
    define q where "q = Http_Post (WXServerUrl @ u) ct payload s r"
    define w3 where "w3 = \<lparr>trace = trace w @ pre @ [q], readers = rd1\<rparr>"
    have p': "post E (WXServerUrl @ u) ct payload w2 = (r, w3)"
      using p by (simp add: w3_def w2_def q_def)
    have rf': "reads_from payload (readers w) [q] rd1"
      using rf by (simp add: w2_def q_def)
    have pre: "filter is_request pre = []" "filter is_forced_refresh pre = []"
      "filter handler_failed pre = []"
      using None by (simp_all add: pre_def lg_def H0_def ob_defs)
    have q: "is_request q" "\<not> is_forced_refresh q" "\<not> handler_failed q"
      by (simp_all add: q_def ob_defs)
    have w2: "w\<lparr>trace := (if Logger ctx then (trace w @ [H0]) @ [Logger_Printf ''POST %s'' [ArgS u]]
                           else trace w @ [H0])\<rparr> = w2"
      by (simp add: w2_def pre_def lg_def world_trace_update)
    show ?thesis
    proof (cases r)
      case (Inl e)
      then have "HTTPPost E getH refH ctx uri payload ct w = (([], Some e), w3)"
        using None by (simp add: HTTPPost_def a Let_def w2 p')
      moreover have "one_retry E ([], Some e) (pre @ [q])"
        using pre Inl by (intro one_retry_no_refresh [where q = q])
          (simp_all add: q ob_defs q_def)
      moreover have "reads_from payload (readers w) (filter is_request (pre @ [q])) rd1"
        using rf' pre q by simp
      ultimately show ?thesis by (simp add: w3_def)
    next
      case (Inr response)
      obtain resp ferr where f: "responseFilter E response = (resp, ferr)"
        by (cases "responseFilter E response")
      show ?thesis
      proof (cases "ferr = Some NeedRefreshAccessTokenError")
        case False
        then have "HTTPPost E getH refH ctx uri payload ct w
                     = ((resp, ferr), \<lparr>trace = trace w @ pre @ [q] @ [Body_Close response],
                                        readers = rd1\<rparr>)"
          using None Inr f by (simp add: HTTPPost_def a Let_def w2 p') (simp add: w3_def)
        moreover have "one_retry E (resp, ferr) (pre @ [q] @ [Body_Close response])"
          using pre Inr f False by (intro one_retry_no_refresh [where q = q])
            (simp_all add: q ob_defs q_def)
        moreover have "reads_from payload (readers w)
            (filter is_request (pre @ [q] @ [Body_Close response])) rd1"
          using rf' pre q by (simp add: is_request_def)
        ultimately show ?thesis by simp
      next
        case True
        obtain out evs rd' where
          t: "HTTPPost_retry E getH refH ctx u payload ct w3
                = (out, \<lparr>trace = trace w3 @ evs, readers = rd'\<rparr>)"
          and s: "retry_shape E out evs"
          and rr: "reads_from payload (readers w3) (filter is_request evs) rd'"
          using HTTPPost_retry_shape [of E getH refH ctx u payload ct w3]
          by (metis prod.collapse)
        have "HTTPPost E getH refH ctx uri payload ct w
                = ((case out of None \<Rightarrow> (resp, ferr) | Some x \<Rightarrow> x),
                   \<lparr>trace = trace w @ pre @ q # evs @ [Body_Close response], readers = rd'\<rparr>)"
          using None Inr f True t
          by (simp add: HTTPPost_def a Let_def w2 p' split: option.split) (simp add: w3_def)
        moreover have "one_retry E (case out of None \<Rightarrow> (resp, ferr) | Some x \<Rightarrow> x)
                         (pre @ q # evs @ [Body_Close response])"
          by (rule one_retry_compose [OF pre q s]) (simp_all add: ob_defs)
        moreover have "reads_from payload (readers w)
            (filter is_request (pre @ q # evs @ [Body_Close response])) rd'"
          using reads_from_append [OF rf', of "filter is_request evs" rd'] rr pre q
          by (simp add: w3_def is_request_def)
        ultimately show ?thesis by simp
      qed
    qed
  qed
qed

subsection \<open>The scenario\<close>

lemma demo_platform [simp]:
  "http_Get (demo_env first second) tr url_first = Inr (ok200 body_invalid)"
  "http_Get (demo_env first second) tr url_second = Inr (ok200 body_ok)"
  "http_Post (demo_env first second) tr url_first c b = (length b, Inr (ok200 body_invalid))"
  "http_Post (demo_env first second) tr url_second c b = (length b, Inr (ok200 body_ok))"
  by (simp_all add: demo_env_def demo_answer_def url_first_def url_second_def ends_with_def)

lemma demo_responseFilter [simp]:
  "responseFilter (demo_env first second) (ok200 body_invalid)
     = (body_invalid, Some NeedRefreshAccessTokenError)"
  "responseFilter (demo_env first second) (ok200 body_ok) = (body_ok, None)"
  by (simp_all add: responseFilter_def ok200_def demo_errorResponse_def body_defs
        WXInvalidErrorCode_def)

lemma demo_GetAccessToken_miss:
  assumes "saved tr ''wx1'' = []" and "filter is_token_request (calls tr) = []"
  shows "GetAccessToken (demo_env body_T1 second) demo_ctx tr
           = ((''T1'', None), tr @ calls_miss)"
proof -
  have s: "saved (tr @ [Cache_Fetch ''wx1'' ([], None), Mutex_Lock]) ''wx1'' = []"
    using assms(1) by (simp add: saved_def calls_def)
  have t: "filter is_token_request
             (calls (tr @ [Cache_Fetch ''wx1'' ([], None), Mutex_Lock,
                           Cache_Fetch ''wx1'' ([], None)])) = []"
    using assms(2) by (simp add: calls_def is_token_request_def)
  show ?thesis
    using assms(1) s t
    by (simp add: GetAccessToken_def cache_fetch_def unlock_def refresh_and_save_def Let_def
          demo_ctx_def time_Second_def shrink_values calls_miss_def
          issuer_step [where b = body_T1])
qed

lemma demo_GetAccessToken_hit:
  assumes "saved tr ''wx1'' = v" and "v \<noteq> []"
  shows "GetAccessToken (demo_env first second) demo_ctx tr
           = ((v, None), tr @ [Cache_Fetch ''wx1'' (v, None)])"
  using assms by (simp add: GetAccessToken_def cache_fetch_def Let_def demo_ctx_def)

lemma demo_Notice_second:
  assumes "filter is_token_request (calls tr) \<noteq> []"
  shows "NoticeRefreshAccessToken (demo_env first body_T2) demo_ctx tr
           = ((''T2'', None), tr @ calls_second)"
    and "NoticeRefreshAccessToken (demo_env first body_ip) demo_ctx tr
           = (([], Some (fmt_Errorf body_ip)), tr @ calls_refused)"
proof -
  have t: "filter is_token_request (calls (tr @ [Mutex_Lock])) \<noteq> []"
    using assms by (simp add: calls_def)
  show "NoticeRefreshAccessToken (demo_env first body_T2) demo_ctx tr
           = ((''T2'', None), tr @ calls_second)"
    using t
    by (simp add: NoticeRefreshAccessToken_def unlock_def refresh_and_save_def Let_def
          demo_ctx_def time_Second_def shrink_values calls_second_def
          issuer_step [where b = body_T2])
  show "NoticeRefreshAccessToken (demo_env first body_ip) demo_ctx tr
           = (([], Some (fmt_Errorf body_ip)), tr @ calls_refused)"
    using t
    by (simp add: NoticeRefreshAccessToken_def unlock_def refresh_and_save_def Let_def
          demo_ctx_def calls_refused_def issuer_step [where b = body_ip])
qed

lemma handler_first:
  "own_get (demo_env body_T1 second) demo_ctx [] = ((''T1'', None), calls_miss)"
  by (simp add: own_get_def handler_of_def demo_GetAccessToken_miss saved_def calls_def)

lemma token_requested:
  "filter is_token_request (calls (Handler_Call GetAccessTokenHandler (''T1'', None) calls_miss # evs))
     \<noteq> []"
  by (simp add: calls_def calls_miss_def is_token_request_def demo_token_url_def)

lemma handler_refresh:
  "own_refresh (demo_env first body_T2) demo_ctx
      (Handler_Call GetAccessTokenHandler (''T1'', None) calls_miss # evs)
     = ((''T2'', None), calls_second)"
  "own_refresh (demo_env first body_ip) demo_ctx
      (Handler_Call GetAccessTokenHandler (''T1'', None) calls_miss # evs)
     = (([], Some (fmt_Errorf body_ip)), calls_refused)"
  by (simp_all add: own_refresh_def handler_of_def demo_Notice_second [OF token_requested])

lemma saved_second:
  "saved [Handler_Call GetAccessTokenHandler (''T1'', None) calls_miss, l, q,
          Handler_Call GetRefreshAccessTokenHandler (''T2'', None) calls_second] ''wx1'' = ''T2''"
  if "flat l = [l]" and "flat q = [q]" and "\<not> is_save l" and "\<not> is_save q"
  using that
  by (cases l; cases q) (simp_all add: saved_def calls_def calls_miss_def calls_second_def is_save_def)

lemma handler_second:
  "own_get (demo_env first second) demo_ctx
     [Handler_Call GetAccessTokenHandler (''T1'', None) calls_miss, l, q,
      Handler_Call GetRefreshAccessTokenHandler (''T2'', None) calls_second]
     = ((''T2'', None), [Cache_Fetch ''wx1'' (''T2'', None)])"
  if "flat l = [l]" and "flat q = [q]" and "\<not> is_save l" and "\<not> is_save q"
  by (simp add: own_get_def handler_of_def demo_GetAccessToken_hit [OF saved_second [OF that]])

lemma run_get:
  "HTTPGet (demo_env body_T1 body_T2) (own_get (demo_env body_T1 body_T2))
      (own_refresh (demo_env body_T1 body_T2)) demo_ctx ''/cgi-bin/menu/get'' []
     = ((body_ok, None), calls_get)"
proof -
  have L: "Logger demo_ctx" by (simp add: demo_ctx_def)
  show ?thesis
    by (simp add: HTTPGet_def HTTPGet_retry_def applyAccessToken_def call_handler_def Let_def L
          handler_first handler_refresh handler_second is_save_def
          WXServerUrl_def demo_platform [unfolded url_first_def url_second_def])
       (simp add: calls_get_def url_first_def url_second_def)
qed

lemma run_get_refused:
  "HTTPGet (demo_env body_T1 body_ip) (own_get (demo_env body_T1 body_ip))
      (own_refresh (demo_env body_T1 body_ip)) demo_ctx ''/cgi-bin/menu/get'' []
     = ((body_invalid, Some NeedRefreshAccessTokenError), calls_get_refused)"
proof -
  have L: "Logger demo_ctx" by (simp add: demo_ctx_def)
  show ?thesis
    by (simp add: HTTPGet_def HTTPGet_retry_def applyAccessToken_def call_handler_def Let_def L
          handler_first handler_refresh
          WXServerUrl_def demo_platform [unfolded url_first_def url_second_def])
       (simp add: calls_get_refused_def url_first_def)
qed

lemma run_post:
  "HTTPPost (demo_env body_T1 body_T2) (own_get (demo_env body_T1 body_T2))
      (own_refresh (demo_env body_T1 body_T2)) demo_ctx ''/cgi-bin/menu/get'' (Some 0)
      ''application/json'' demo_world
     = ((body_ok, None), \<lparr>trace = calls_post, readers = (\<lambda>p. [])\<rparr>)"
proof -
  have L: "Logger demo_ctx" by (simp add: demo_ctx_def)
  show ?thesis
    by (simp add: HTTPPost_def HTTPPost_retry_def post_def applyAccessToken_def call_handler_def
          Let_def L handler_first handler_refresh handler_second is_save_def demo_world_def
          WXServerUrl_def demo_platform [unfolded url_first_def url_second_def])
       (simp add: calls_post_def url_first_def url_second_def fun_eq_iff)
qed

lemma run_post_refused:
  "HTTPPost (demo_env body_T1 body_ip) (own_get (demo_env body_T1 body_ip))
      (own_refresh (demo_env body_T1 body_ip)) demo_ctx ''/cgi-bin/menu/get'' (Some 0)
      ''application/json'' demo_world
     = ((body_invalid, Some NeedRefreshAccessTokenError),
        \<lparr>trace = calls_post_refused, readers = (\<lambda>p. [])\<rparr>)"
proof -
  have L: "Logger demo_ctx" by (simp add: demo_ctx_def)
  show ?thesis
    by (simp add: HTTPPost_def HTTPPost_retry_def post_def applyAccessToken_def call_handler_def
          Let_def L handler_first handler_refresh demo_world_def
          WXServerUrl_def demo_platform [unfolded url_first_def url_second_def])
       (simp add: calls_post_refused_def url_first_def fun_eq_iff)
qed

lemma requests_get:
  "filter is_request calls_get
     = [Http_Get url_first (Inr (ok200 body_invalid)), Http_Get url_second (Inr (ok200 body_ok))]"
  "filter is_request calls_post
     = [Http_Post url_first ''application/json'' (Some 0) ''{}'' (Inr (ok200 body_invalid)),
        Http_Post url_second ''application/json'' (Some 0) [] (Inr (ok200 body_ok))]"
  "filter is_request calls_get_refused = [Http_Get url_first (Inr (ok200 body_invalid))]"
  "filter is_request calls_post_refused
     = [Http_Post url_first ''application/json'' (Some 0) ''{}'' (Inr (ok200 body_invalid))]"
  by (simp_all add: calls_get_def calls_post_def calls_get_refused_def calls_post_refused_def
        is_request_def)

lemma refreshes_get:
  "filter is_forced_refresh calls_get
     = [Handler_Call GetRefreshAccessTokenHandler (''T2'', None) calls_second]"
  "filter is_forced_refresh calls_post
     = [Handler_Call GetRefreshAccessTokenHandler (''T2'', None) calls_second]"
  "filter is_forced_refresh calls_get_refused
     = [Handler_Call GetRefreshAccessTokenHandler ([], Some (fmt_Errorf body_ip)) calls_refused]"
  "filter is_forced_refresh calls_post_refused
     = [Handler_Call GetRefreshAccessTokenHandler ([], Some (fmt_Errorf body_ip)) calls_refused]"
  by (simp_all add: calls_get_def calls_post_def calls_get_refused_def calls_post_refused_def
        is_forced_refresh_def)

subsection \<open>The client\<close>

text \<open>
  C1. The claim fails on the code. In the scenario, \<open>HTTPGet\<close> and \<open>HTTPPost\<close> for the path
  \<open>/cgi-bin/menu/get\<close> send the retried request to
  \<open>/cgi-bin/menu/get?access_token=T1&access_token=T2\<close>: \<open>applyAccessToken\<close> is given the
  variable \<open>uri\<close>, which since the first attempt holds the address with the stale token
  \<open>T1\<close>, and appends the new token \<open>T2\<close> to it.
\<close>

theorem retry_url_keeps_stale_token:
  "filter is_request
     (snd (HTTPGet (demo_env body_T1 body_T2) (own_get (demo_env body_T1 body_T2))
             (own_refresh (demo_env body_T1 body_T2)) demo_ctx ''/cgi-bin/menu/get'' []))
     = [Http_Get ''https://api.weixin.qq.com/cgi-bin/menu/get?access_token=T1''
          (Inr (ok200 body_invalid)),
        Http_Get ''https://api.weixin.qq.com/cgi-bin/menu/get?access_token=T1&access_token=T2''
          (Inr (ok200 body_ok))]
   \<and> filter is_request
       (trace (snd (HTTPPost (demo_env body_T1 body_T2) (own_get (demo_env body_T1 body_T2))
                      (own_refresh (demo_env body_T1 body_T2)) demo_ctx ''/cgi-bin/menu/get''
                      (Some 0) ''application/json'' demo_world)))
     = [Http_Post ''https://api.weixin.qq.com/cgi-bin/menu/get?access_token=T1''
          ''application/json'' (Some 0) ''{}'' (Inr (ok200 body_invalid)),
        Http_Post ''https://api.weixin.qq.com/cgi-bin/menu/get?access_token=T1&access_token=T2''
          ''application/json'' (Some 0) [] (Inr (ok200 body_ok))]"
  by (simp add: run_get run_post requests_get) (simp add: url_first_def url_second_def)

text \<open>
  C5. The claim fails on the code. In the scenario with an issuer that refuses the forced
  refresh, the refresh handler returns the error made from the issuer's answer, and
  \<open>HTTPGet\<close> and \<open>HTTPPost\<close> return \<open>NeedRefreshAccessTokenError\<close> with the body of the first
  response: the handler's error is held by the \<open>err\<close> declared inside the block, and the bare
  \<open>return\<close> gives back the results of the function as the first attempt left them.
\<close>

theorem refresh_error_is_replaced:
  "HTTPGet (demo_env body_T1 body_ip) (own_get (demo_env body_T1 body_ip))
      (own_refresh (demo_env body_T1 body_ip)) demo_ctx ''/cgi-bin/menu/get'' []
     = ((body_invalid, Some NeedRefreshAccessTokenError), calls_get_refused)
   \<and> filter is_forced_refresh calls_get_refused
     = [Handler_Call GetRefreshAccessTokenHandler ([], Some (fmt_Errorf body_ip)) calls_refused]
   \<and> HTTPPost (demo_env body_T1 body_ip) (own_get (demo_env body_T1 body_ip))
      (own_refresh (demo_env body_T1 body_ip)) demo_ctx ''/cgi-bin/menu/get'' (Some 0)
      ''application/json'' demo_world
     = ((body_invalid, Some NeedRefreshAccessTokenError),
        \<lparr>trace = calls_post_refused, readers = (\<lambda>p. [])\<rparr>)
   \<and> filter is_forced_refresh calls_post_refused
     = [Handler_Call GetRefreshAccessTokenHandler ([], Some (fmt_Errorf body_ip)) calls_refused]
   \<and> fmt_Errorf body_ip \<noteq> NeedRefreshAccessTokenError"
  by (simp add: run_get_refused run_post_refused refreshes_get)

text \<open>
  C2 as stated fails where the forced refresh fails: the first response is classified as
  \<open>NeedRefreshAccessTokenError\<close>, the refresh handler is called once, and no request is
  sent again.
\<close>

theorem no_resend_counterexample:
  "fst (HTTPGet (demo_env body_T1 body_ip) (own_get (demo_env body_T1 body_ip))
      (own_refresh (demo_env body_T1 body_ip)) demo_ctx ''/cgi-bin/menu/get'' [])
     = (body_invalid, Some NeedRefreshAccessTokenError)
   \<and> filter is_request
       (snd (HTTPGet (demo_env body_T1 body_ip) (own_get (demo_env body_T1 body_ip))
               (own_refresh (demo_env body_T1 body_ip)) demo_ctx ''/cgi-bin/menu/get'' []))
     = [Http_Get url_first (Inr (ok200 body_invalid))]
   \<and> snd (responseFilter (demo_env body_T1 body_ip) (ok200 body_invalid))
     = Some NeedRefreshAccessTokenError
   \<and> length (filter is_forced_refresh
       (snd (HTTPGet (demo_env body_T1 body_ip) (own_get (demo_env body_T1 body_ip))
               (own_refresh (demo_env body_T1 body_ip)) demo_ctx ''/cgi-bin/menu/get'' []))) = 1"
  by (simp add: run_get_refused requests_get refreshes_get)

text \<open>
  C2 (amended). In every run of \<open>HTTPGet\<close> or \<open>HTTPPost\<close> whose first request gets a response
  classified as \<open>NeedRefreshAccessTokenError\<close>: the refresh handler is called exactly once;
  if no handler call of the run returns an error, exactly one more request is sent; if one
  does (the forced refresh, or the token lookup after it), no request is sent again; if
  the second request gets a response, the run returns what \<open>responseFilter\<close> makes of it,
  also when this is \<open>NeedRefreshAccessTokenError\<close> again. There is never a third request.
\<close>

theorem retried_once:
  assumes "(res, evs) = (fst (HTTPGet E getH refH ctx uri tr),
                         new_calls tr (snd (HTTPGet E getH refH ctx uri tr)))
         \<or> (res, evs) = (fst (HTTPPost E getH refH ctx uri payload contentType w),
                         new_calls (trace w)
                           (trace (snd (HTTPPost E getH refH ctx uri payload contentType w))))"
      and "filter is_request evs = q1 # rest"
      and "response_of q1 = Some r1"
      and "snd (responseFilter E r1) = Some NeedRefreshAccessTokenError"
  shows "length (filter is_forced_refresh evs) = 1
       \<and> length rest \<le> 1
       \<and> (filter handler_failed evs = [] \<longrightarrow> length rest = 1)
       \<and> (filter handler_failed evs \<noteq> [] \<longrightarrow> rest = [])
       \<and> (\<forall>q2 r2. rest = [q2] \<and> response_of q2 = Some r2 \<longrightarrow> res = responseFilter E r2)"
proof -
  obtain evs1 where "snd (HTTPGet E getH refH ctx uri tr) = tr @ evs1"
    and "one_retry E (fst (HTTPGet E getH refH ctx uri tr)) evs1"
    using HTTPGet_shape by blast
  moreover obtain evs2 rd' where
    "snd (HTTPPost E getH refH ctx uri payload contentType w)
       = \<lparr>trace = trace w @ evs2, readers = rd'\<rparr>"
    and "one_retry E (fst (HTTPPost E getH refH ctx uri payload contentType w)) evs2"
    using HTTPPost_shape by blast
  ultimately have "one_retry E res evs"
    using assms(1) by auto
  with assms(2-4) show ?thesis
    unfolding one_retry_def by blast
qed

theorem retried_once_witness:
  "HTTPGet (demo_env body_T1 body_T2) (own_get (demo_env body_T1 body_T2))
      (own_refresh (demo_env body_T1 body_T2)) demo_ctx ''/cgi-bin/menu/get'' []
     = ((body_ok, None), calls_get)
   \<and> HTTPPost (demo_env body_T1 body_T2) (own_get (demo_env body_T1 body_T2))
      (own_refresh (demo_env body_T1 body_T2)) demo_ctx ''/cgi-bin/menu/get'' (Some 0)
      ''application/json'' demo_world
     = ((body_ok, None), \<lparr>trace = calls_post, readers = (\<lambda>p. [])\<rparr>)
   \<and> filter is_request calls_get
     = [Http_Get url_first (Inr (ok200 body_invalid)), Http_Get url_second (Inr (ok200 body_ok))]
   \<and> filter is_request calls_post
     = [Http_Post url_first ''application/json'' (Some 0) ''{}'' (Inr (ok200 body_invalid)),
        Http_Post url_second ''application/json'' (Some 0) [] (Inr (ok200 body_ok))]
   \<and> snd (responseFilter (demo_env body_T1 body_T2) (ok200 body_invalid))
       = Some NeedRefreshAccessTokenError
   \<and> length (filter is_forced_refresh calls_get) = 1
   \<and> length (filter is_forced_refresh calls_post) = 1
   \<and> filter handler_failed calls_get = []
   \<and> filter handler_failed calls_post = []
   \<and> (body_ok, None) = responseFilter (demo_env body_T1 body_T2) (ok200 body_ok)
   \<and> HTTPGet (demo_env body_T1 body_ip) (own_get (demo_env body_T1 body_ip))
      (own_refresh (demo_env body_T1 body_ip)) demo_ctx ''/cgi-bin/menu/get'' []
     = ((body_invalid, Some NeedRefreshAccessTokenError), calls_get_refused)
   \<and> filter handler_failed calls_get_refused \<noteq> []
   \<and> filter is_request calls_get_refused = [Http_Get url_first (Inr (ok200 body_invalid))]
   \<and> length (filter is_forced_refresh calls_get_refused) = 1"
proof -
  let ?E = "demo_env body_T1 body_T2"
  let ?F = "demo_env body_T1 body_ip"
  have g: "((body_ok, None), calls_get)
      = (fst (HTTPGet ?E (own_get ?E) (own_refresh ?E) demo_ctx ''/cgi-bin/menu/get'' []),
         new_calls [] (snd (HTTPGet ?E (own_get ?E) (own_refresh ?E) demo_ctx
                              ''/cgi-bin/menu/get'' [])))
    \<or> ((body_ok, None), calls_get)
      = (fst (HTTPPost ?E (own_get ?E) (own_refresh ?E) demo_ctx ''/cgi-bin/menu/get'' (Some 0)
                ''application/json'' demo_world),
         new_calls (trace demo_world)
           (trace (snd (HTTPPost ?E (own_get ?E) (own_refresh ?E) demo_ctx ''/cgi-bin/menu/get''
                          (Some 0) ''application/json'' demo_world))))"
    by (simp add: run_get)
  have p: "((body_ok, None), calls_post)
      = (fst (HTTPGet ?E (own_get ?E) (own_refresh ?E) demo_ctx ''/cgi-bin/menu/get'' []),
         new_calls [] (snd (HTTPGet ?E (own_get ?E) (own_refresh ?E) demo_ctx
                              ''/cgi-bin/menu/get'' [])))
    \<or> ((body_ok, None), calls_post)
      = (fst (HTTPPost ?E (own_get ?E) (own_refresh ?E) demo_ctx ''/cgi-bin/menu/get'' (Some 0)
                ''application/json'' demo_world),
         new_calls (trace demo_world)
           (trace (snd (HTTPPost ?E (own_get ?E) (own_refresh ?E) demo_ctx ''/cgi-bin/menu/get''
                          (Some 0) ''application/json'' demo_world))))"
    by (rule disjI2) (simp add: run_post demo_world_def [THEN arg_cong, of trace])
  have q: "((body_invalid, Some NeedRefreshAccessTokenError), calls_get_refused)
      = (fst (HTTPGet ?F (own_get ?F) (own_refresh ?F) demo_ctx ''/cgi-bin/menu/get'' []),
         new_calls [] (snd (HTTPGet ?F (own_get ?F) (own_refresh ?F) demo_ctx
                              ''/cgi-bin/menu/get'' [])))
    \<or> ((body_invalid, Some NeedRefreshAccessTokenError), calls_get_refused)
      = (fst (HTTPPost ?F (own_get ?F) (own_refresh ?F) demo_ctx ''/cgi-bin/menu/get'' (Some 0)
                ''application/json'' demo_world),
         new_calls (trace demo_world)
           (trace (snd (HTTPPost ?F (own_get ?F) (own_refresh ?F) demo_ctx ''/cgi-bin/menu/get''
                          (Some 0) ''application/json'' demo_world))))"
    by (simp add: run_get_refused)
  have r: "response_of (Http_Get url_first (Inr (ok200 body_invalid))) = Some (ok200 body_invalid)"
    "response_of (Http_Post url_first ''application/json'' (Some 0) ''{}''
        (Inr (ok200 body_invalid))) = Some (ok200 body_invalid)"
    by (simp_all add: response_of_def)
  have c: "snd (responseFilter ?E (ok200 body_invalid)) = Some NeedRefreshAccessTokenError"
    "snd (responseFilter ?F (ok200 body_invalid)) = Some NeedRefreshAccessTokenError"
    by simp_all
  have h: "filter handler_failed calls_get = []" "filter handler_failed calls_post = []"
    "filter handler_failed calls_get_refused \<noteq> []"
    by (simp_all add: calls_get_def calls_post_def calls_get_refused_def handler_failed_def)
  from retried_once [OF g requests_get(1) r(1) c(1)] retried_once [OF p requests_get(2) r(2) c(1)]
    retried_once [OF q requests_get(3) r(1) c(2)]
  show ?thesis
    by (simp add: run_get run_post run_get_refused requests_get h)
qed



end
